theory Spec2Isabelle
  imports Complex_Main
begin

section \<open>Data model\<close>

text \<open>
  The module \<^verbatim>\<open>nebullvm/operations/optimizations/compilers/tensor_rt.py\<close> holds two
  compiler strategies: \<^verbatim>\<open>PyTorchTensorRTCompiler\<close> (the native-graph path) and
  \<^verbatim>\<open>ONNXTensorRTCompiler\<close> (the interchange-format path), both below the abstract
  \<^verbatim>\<open>TensorRTCompiler\<close> with its class-level table \<^verbatim>\<open>supported_ops\<close>.
  Everything the two \<^verbatim>\<open>execute\<close> methods call outside this module (torch,
  torch_tensorrt, tensorrt, onnxsim, subprocess, the data manager, the quantization helpers)
  is a field of the record \<open>env\<close>: its outcome is a parameter of the model.
\<close>

subsection \<open>Enumerations and exceptions\<close>

text \<open>
  Modelled from the spec: the enumeration of device classes is declared outside this module;
  the support table is keyed by the device classes \<^verbatim>\<open>cpu\<close> and \<^verbatim>\<open>gpu\<close>, and
  \<^verbatim>\<open>self.device.value\<close> is the key.
\<close>

datatype DeviceType = CPU | GPU

fun device_value :: "DeviceType \<Rightarrow> string" where
  "device_value CPU = ''cpu''"
| "device_value GPU = ''gpu''"

text \<open>
  Modelled from the spec: \<^verbatim>\<open>QuantizationType\<close> is declared in \<^verbatim>\<open>nebullvm.tools.base\<close>.
  The module names its members \<^verbatim>\<open>STATIC\<close> and \<^verbatim>\<open>HALF\<close>; \<open>DYNAMIC\<close> stands for a
  member the support table does not list. The argument \<^verbatim>\<open>quantization_type\<close> is optional,
  so it is a \<open>QuantizationType option\<close> and Python's \<^verbatim>\<open>None\<close> is \<open>None\<close>.
\<close>

datatype QuantizationType = DYNAMIC | STATIC | HALF

fun str_QuantizationType :: "QuantizationType option \<Rightarrow> string" where
  "str_QuantizationType None = ''None''"
| "str_QuantizationType (Some DYNAMIC) = ''QuantizationType.DYNAMIC''"
| "str_QuantizationType (Some STATIC) = ''QuantizationType.STATIC''"
| "str_QuantizationType (Some HALF) = ''QuantizationType.HALF''"

text \<open>
  Exceptions are values. \<open>ValueError\<close> is what the module raises itself (the spec's
  InvalidArgument and InvalidModel conditions); \<open>AttributeError\<close>, \<open>KeyError\<close> and
  \<open>IndexError\<close> are what Python raises on an attribute of \<^verbatim>\<open>None\<close>, a missing
  dictionary key and an index out of range; \<open>ExternalError\<close> is any exception an
  external collaborator raises.
\<close>

datatype pyerr =
    ValueError string
  | AttributeError string
  | KeyError string
  | IndexError string
  | ImportError string
  | ExternalError string

subsection \<open>Tensors and modules\<close>

datatype dtype = Float16 | Float32 | Float64 | Int8 | Int16 | Int32 | Int64 | UInt8 | Bool

fun str_dtype :: "dtype \<Rightarrow> string" where
  "str_dtype Float16 = ''torch.float16''"
| "str_dtype Float32 = ''torch.float32''"
| "str_dtype Float64 = ''torch.float64''"
| "str_dtype Int8 = ''torch.int8''"
| "str_dtype Int16 = ''torch.int16''"
| "str_dtype Int32 = ''torch.int32''"
| "str_dtype Int64 = ''torch.int64''"
| "str_dtype UInt8 = ''torch.uint8''"
| "str_dtype Bool = ''torch.bool''"

text \<open>A tensor, as far as the module looks at it: its shape, its dtype and where it lives.\<close>

record tensor =
  t_shape :: "int list"
  t_dtype :: dtype
  t_cuda :: bool

definition cuda :: "tensor \<Rightarrow> tensor" where
  "cuda t = t\<lparr>t_cuda := True\<rparr>"

definition to_dtype :: "dtype \<Rightarrow> tensor \<Rightarrow> tensor" where
  "to_dtype d t = t\<lparr>t_dtype := d\<rparr>"

text \<open>
  A \<^verbatim>\<open>torch.nn.Module\<close> object lives in a store (a list of objects, a reference is an
  index), since \<^verbatim>\<open>model.cuda().eval()\<close> and \<^verbatim>\<open>.half()\<close> mutate the object they are
  called on and \<^verbatim>\<open>copy.deepcopy\<close> allocates a new one.
\<close>

record module =
  m_cuda :: bool
  m_training :: bool
  m_dtype :: dtype
  m_traced :: bool

type_synonym ref = nat

subsection \<open>Model parameters\<close>

text \<open>
  Modelled from the spec: \<^verbatim>\<open>ModelParams\<close>, \<^verbatim>\<open>InputInfo\<close> and the dynamic-axis
  information are declared in \<^verbatim>\<open>nebullvm.tools.base\<close>. The module reads
  \<^verbatim>\<open>batch_size\<close>, \<^verbatim>\<open>input_infos\<close> (each with \<^verbatim>\<open>size\<close> and the optional dictionary
  \<^verbatim>\<open>min_sizes\<close>) and the optional \<^verbatim>\<open>dynamic_info\<close> with its list \<^verbatim>\<open>inputs\<close>, one
  collection of dynamic dimensions per input, tested with \<^verbatim>\<open>in\<close>.
\<close>

record InputInfo =
  info_size :: "int list"
  min_sizes :: "(int \<rightharpoonup> int) option"

record DynamicAxisInfo =
  inputs :: "int set list"

record ModelParams =
  batch_size :: int
  input_infos :: "InputInfo list"
  dynamic_info :: "DynamicAxisInfo option"

subsection \<open>The sample data source\<close>

datatype ndarray = NDArray (nd_shape: "int list") (nd_dtype: dtype)

text \<open>
  \<^verbatim>\<open>DataManager\<close> is declared in \<^verbatim>\<open>nebullvm.tools.data\<close>; the module calls
  \<^verbatim>\<open>get_list\<close>, \<^verbatim>\<open>get_split\<close> and \<^verbatim>\<open>get_numpy_list\<close> on it, and the dataset built
  from it is asked for its \<^verbatim>\<open>batch_size\<close>. Each method may raise.
\<close>

datatype DataManager = DataManager
  (get_list: "nat \<Rightarrow> pyerr + tensor list list")
  (get_split: "string \<Rightarrow> pyerr + DataManager")
  (get_numpy_list: "nat \<Rightarrow> pyerr + ndarray list list")
  (dm_batch_size: nat)

subsection \<open>Transformations, calibrator, backend objects\<close>

datatype transformation = HalfPrecisionTransformation | OtherTransformation string

datatype CalibrationAlgo = ENTROPY_CALIBRATION | ENTROPY_CALIBRATION_2 | LEGACY_CALIBRATION | MINMAX_CALIBRATION

record DataLoader =
  dl_dataset :: DataManager
  dl_batch_size :: nat
  dl_shuffle :: bool
  dl_num_workers :: nat

record DataLoaderCalibrator =
  cal_dataloader :: DataLoader
  cal_use_cache :: bool
  cal_algo_type :: CalibrationAlgo
  cal_device :: string

record device_spec =
  gpu_id :: nat
  dla_core :: nat
  allow_gpu_fallback :: bool
  disable_tf32 :: bool

text \<open>The arguments of one call of \<^verbatim>\<open>torch_tensorrt.compile\<close>.\<close>

record compile_args =
  ca_model :: ref
  ca_inputs :: "(int list \<times> dtype) list"
  ca_enabled_precisions :: "dtype list"
  ca_calibrator :: "DataLoaderCalibrator option"
  ca_workspace_size :: nat
  ca_device :: device_spec
  ca_truncate_long_and_double :: bool

text \<open>The objects of the TensorRT builder API, as far as the module configures them.\<close>

record network =
  net_flags :: nat
  net_parsed :: "string option"

type_synonym profile = "(string \<times> int list \<times> int list \<times> int list) list"

record config =
  cfg_memory_pool_limit :: "nat option"
  cfg_quantization :: "QuantizationType option"
  cfg_calibration_data :: "ndarray list list option"
  cfg_profiles :: "profile list"

text \<open>What \<^verbatim>\<open>parser.parse_from_file\<close> leaves behind: the flag and the parser's error list.\<close>

record parse_result =
  success :: bool
  errors :: "string list"

subsection \<open>The trace of external calls, the log, the state\<close>

text \<open>
  One constructor per external call the module makes, with the arguments that matter;
  \<open>Ev_deepcopy_half m m'\<close> is \<^verbatim>\<open>copy.deepcopy(model).half()\<close> on the object \<open>m\<close>, giving the
  new object \<open>m'\<close>, and \<open>Ev_parse_from_file\<close> records the flag and the errors the parser
  reported.
\<close>

datatype event =
    Ev_check_quantization "QuantizationType option" "real option"
  | Ev_get_split string
  | Ev_get_list nat
  | Ev_get_numpy_list nat
  | Ev_jit_script ref
  | Ev_jit_trace ref "tensor list"
  | Ev_deepcopy_half ref ref
  | Ev_torch_tensorrt_compile compile_args
  | Ev_import_onnxsim
  | Ev_subprocess_run "string list"
  | Ev_Logger
  | Ev_Builder
  | Ev_create_network nat
  | Ev_create_builder_config
  | Ev_set_memory_pool_limit nat
  | Ev_quantize_tensorrt QuantizationType "ndarray list list option"
  | Ev_OnnxParser
  | Ev_parse_from_file string bool "string list"
  | Ev_set_shape string "int list" "int list" "int list"
  | Ev_add_optimization_profile
  | Ev_build_serialized_network network config

datatype log_entry = Info string | Warning string | Debug string

text \<open>
  The state one \<^verbatim>\<open>execute\<close> call reads and writes: the attributes
  \<^verbatim>\<open>self.compiled_model\<close> and \<^verbatim>\<open>self.model_orig\<close>, the caller's pipeline object
  \<^verbatim>\<open>input_tfms\<close> (\<open>None\<close> when the caller passes \<^verbatim>\<open>None\<close>; \<^verbatim>\<open>append\<close> mutates it in
  place), the store of module objects, the regular files that exist, the logger's output and
  the external calls made so far.
\<close>

record 'a state =
  compiled_model :: "'a option"
  model_orig :: "string option"
  input_tfms :: "transformation list option"
  modules :: "module list"
  files :: "string set"
  logged :: "log_entry list"
  trace :: "event list"

text \<open>
  The external collaborators. \<open>'a\<close> is the type of compiled artifacts: what
  \<^verbatim>\<open>torch_tensorrt.compile\<close> and \<^verbatim>\<open>builder.build_serialized_network\<close> return is taken as
  the artifact. A collaborator that can raise returns an exception or a value; a call that
  can touch the file system takes the files and returns them. The constants
  \<^verbatim>\<open>TORCH_TENSORRT_PRECISIONS\<close> and \<^verbatim>\<open>QUANTIZATION_DATA_NUM\<close> of \<^verbatim>\<open>nebullvm.config\<close> and
  the flag number \<^verbatim>\<open>EXPLICIT_BATCH\<close> are parameters too;
  \<open>has_set_memory_pool_limit\<close> tells whether the configuration object has the method (the
  module catches the \<^verbatim>\<open>AttributeError\<close>). Moving a tensor or a module to the gpu, building
  the data loader and the calibrator, constructing the logger, the builder, the network, the
  configuration, the parser and the profile, and \<^verbatim>\<open>os.remove\<close> are taken to succeed; the
  context manager \<^verbatim>\<open>torch_tensorrt.logging.errors()\<close> only sets a log level and is left out.
\<close>

record 'a env =
  check_quantization :: "QuantizationType option \<Rightarrow> real option \<Rightarrow> pyerr option"
  jit_script :: "module \<Rightarrow> pyerr option"
  jit_trace :: "module \<Rightarrow> tensor list \<Rightarrow> pyerr + module"
  TORCH_TENSORRT_PRECISIONS :: "string \<rightharpoonup> dtype list"
  torch_tensorrt_compile :: "compile_args \<Rightarrow> module \<Rightarrow> string set \<Rightarrow> (pyerr + 'a) \<times> string set"
  QUANTIZATION_DATA_NUM :: nat
  import_onnxsim :: "pyerr option"
  subprocess_run :: "string list \<Rightarrow> string set \<Rightarrow> (pyerr + int) \<times> string set"
  EXPLICIT_BATCH :: nat
  has_set_memory_pool_limit :: bool
  quantize_tensorrt :: "QuantizationType \<Rightarrow> ModelParams \<Rightarrow> config \<Rightarrow> transformation list option
     \<Rightarrow> ndarray list list option \<Rightarrow> (pyerr + config) \<times> transformation list option"
  parse_from_file :: "string \<Rightarrow> string set \<Rightarrow> parse_result"
  get_input_names :: "string \<Rightarrow> string list"
  build_serialized_network :: "network \<Rightarrow> config \<Rightarrow> pyerr + 'a"

section \<open>The capability gate\<close>

text \<open>The class attribute \<^verbatim>\<open>TensorRTCompiler.supported_ops\<close>, a dictionary of lists.\<close>

definition supported_ops :: "(string \<times> QuantizationType option list) list" where
  "supported_ops =
     [(''cpu'', []),
      (''gpu'', [None, Some STATIC, Some HALF])]"

section \<open>The native-graph strategy: \<^verbatim>\<open>PyTorchTensorRTCompiler\<close>\<close>

definition info_message :: "string \<Rightarrow> QuantizationType option \<Rightarrow> string" where
  "info_message class_name quantization_type =
     ''Optimizing with '' @ class_name @ '' and q_type: '' @ str_QuantizationType quantization_type @ ''.''"

text \<open>
  Lines 98 to 119 of \<^verbatim>\<open>execute\<close>: the working dtype, the append to the pipeline for half
  precision and the calibrator for static quantization. The result carries the calibrator
  as an option: the Python variable \<^verbatim>\<open>calibrator\<close> is bound on the static branch only.
\<close>

definition PyTorch_resolve_dtype ::
  "QuantizationType option \<Rightarrow> DataManager option \<Rightarrow> 'a state
     \<Rightarrow> (pyerr + dtype \<times> DataLoaderCalibrator option) \<times> 'a state" where
  "PyTorch_resolve_dtype quantization_type input_data s =
     (if quantization_type = Some HALF then
        (case input_tfms s of
           None \<Rightarrow> (Inl (AttributeError ''append''), s)
         | Some tfms \<Rightarrow>
             (Inr (Float16, None), s\<lparr>input_tfms := Some (tfms @ [HalfPrecisionTransformation])\<rparr>))
      else if quantization_type = Some STATIC then
        (case input_data of
           None \<Rightarrow> (Inl (AttributeError ''get_split''), s)
         | Some d \<Rightarrow>
             (let s1 = s\<lparr>trace := trace s @ [Ev_get_split ''train'']\<rparr> in
              case get_split d ''train'' of
                Inl e \<Rightarrow> (Inl e, s1)
              | Inr dataset \<Rightarrow>
                  (let dataloader = \<lparr>dl_dataset = dataset, dl_batch_size = dm_batch_size dataset,
                                      dl_shuffle = False, dl_num_workers = 0\<rparr>;
                       calibrator = \<lparr>cal_dataloader = dataloader, cal_use_cache = False,
                                      cal_algo_type = ENTROPY_CALIBRATION_2, cal_device = ''cuda:0''\<rparr>
                   in (Inr (Int8, Some calibrator), s1))))
      else (Inr (Float32, None), s))"

text \<open>Lines 121 to 127: the example input tensors, read from the sample data source.\<close>

definition convert_tensor :: "tensor \<Rightarrow> tensor" where
  "convert_tensor t = (if t_dtype t \<noteq> Int64 then cuda t else cuda (to_dtype Int32 t))"

definition PyTorch_input_tensors ::
  "DataManager option \<Rightarrow> 'a state \<Rightarrow> (pyerr + tensor list) \<times> 'a state" where
  "PyTorch_input_tensors input_data s =
     (case input_data of
        None \<Rightarrow> (Inl (AttributeError ''get_list''), s)
      | Some d \<Rightarrow>
          (let s1 = s\<lparr>trace := trace s @ [Ev_get_list 1]\<rparr> in
           case get_list d 1 of
             Inl e \<Rightarrow> (Inl e, s1)
           | Inr [] \<Rightarrow> (Inl (IndexError ''list index out of range''), s1)
           | Inr (ts # _) \<Rightarrow> (Inr (map convert_tensor ts), s1)))"

text \<open>
  \<^verbatim>\<open>_compile_model\<close>, in three steps. First \<^verbatim>\<open>model.cuda().eval()\<close> on the object itself,
  then scripting with tracing as the fallback: the scripted module is dropped, so \<^verbatim>\<open>model\<close>
  stays the caller's object unless scripting raises, and then it is the traced module.
\<close>

definition PyTorch_obtain_graph ::
  "'a env \<Rightarrow> ref \<Rightarrow> tensor list \<Rightarrow> 'a state \<Rightarrow> (pyerr + ref) \<times> 'a state" where
  "PyTorch_obtain_graph env model input_tensors s =
     (let s1 = s\<lparr>modules := (modules s)[model := (modules s ! model)\<lparr>m_cuda := True, m_training := False\<rparr>]\<rparr>;
          s2 = s1\<lparr>trace := trace s1 @ [Ev_jit_script model]\<rparr> in
      case jit_script env (modules s2 ! model) of
        None \<Rightarrow> (Inr model, s2)
      | Some _ \<Rightarrow>
          (let s3 = s2\<lparr>trace := trace s2 @ [Ev_jit_trace model input_tensors]\<rparr> in
           case jit_trace env (modules s3 ! model) input_tensors of
             Inl e \<Rightarrow> (Inl e, s3)
           | Inr traced \<Rightarrow> (Inr (length (modules s3)), s3\<lparr>modules := modules s3 @ [traced]\<rparr>)))"

text \<open>The input specification of one tensor (lines 161 to 169).\<close>

definition input_spec :: "dtype \<Rightarrow> tensor \<Rightarrow> int list \<times> dtype" where
  "input_spec dtype t =
     (t_shape t,
      if dtype = Float16 \<and> t_dtype t \<notin> set [Int8, Int32] then Float16 else t_dtype t)"

text \<open>
  The call of \<^verbatim>\<open>torch_tensorrt.compile\<close>. Its arguments are evaluated in order: the
  module (a deep copy cast with \<^verbatim>\<open>.half()\<close> when the working dtype is half precision),
  the input specifications, the enabled precisions (a dictionary lookup) and the calibrator.
\<close>

definition PyTorch_builder_call ::
  "'a env \<Rightarrow> ref \<Rightarrow> tensor list \<Rightarrow> dtype \<Rightarrow> DataLoaderCalibrator option
     \<Rightarrow> QuantizationType option \<Rightarrow> 'a state \<Rightarrow> (pyerr + 'a) \<times> 'a state" where
  "PyTorch_builder_call env model input_tensors dtype calibrator quantization_type s =
     (let (arg, s1) =
            (if dtype \<noteq> Float16 then (model, s)
             else (length (modules s),
                   s\<lparr>modules := modules s @ [(modules s ! model)\<lparr>m_dtype := Float16\<rparr>],
                     trace := trace s @ [Ev_deepcopy_half model (length (modules s))]\<rparr>)) in
      case TORCH_TENSORRT_PRECISIONS env (str_dtype dtype) of
        None \<Rightarrow> (Inl (KeyError (str_dtype dtype)), s1)
      | Some precisions \<Rightarrow>
          (let args = \<lparr>ca_model = arg,
                       ca_inputs = map (input_spec dtype) input_tensors,
                       ca_enabled_precisions = precisions,
                       ca_calibrator = (if quantization_type = Some STATIC then calibrator else None),
                       ca_workspace_size = 2 ^ 30,
                       ca_device = \<lparr>gpu_id = 0, dla_core = 0, allow_gpu_fallback = False,
                                    disable_tf32 = False\<rparr>,
                       ca_truncate_long_and_double = True\<rparr>;
               s2 = s1\<lparr>trace := trace s1 @ [Ev_torch_tensorrt_compile args]\<rparr>;
               (r, fs) = torch_tensorrt_compile env args (modules s2 ! arg) (files s2) in
           (r, s2\<lparr>files := fs\<rparr>)))"

definition PyTorch_compile_model ::
  "'a env \<Rightarrow> ref \<Rightarrow> tensor list \<Rightarrow> dtype \<Rightarrow> DataLoaderCalibrator option
     \<Rightarrow> QuantizationType option \<Rightarrow> 'a state \<Rightarrow> (pyerr + 'a) \<times> 'a state" where
  "PyTorch_compile_model env model input_tensors dtype calibrator quantization_type s =
     (case PyTorch_obtain_graph env model input_tensors s of
        (Inl e, s1) \<Rightarrow> (Inl e, s1)
      | (Inr model1, s1) \<Rightarrow>
          (case PyTorch_builder_call env model1 input_tensors dtype calibrator quantization_type s1 of
             (Inl e, s2) \<Rightarrow> (Inl e, s2)
           | (Inr trt_model, s2) \<Rightarrow>
               (Inr trt_model,
                if ''calibration.cache'' \<in> files s2
                then s2\<lparr>files := files s2 - {''calibration.cache''}\<rparr> else s2)))"

text \<open>
  The part of \<^verbatim>\<open>execute\<close> after the two guards (lines 91 to 137), and \<^verbatim>\<open>execute\<close>
  itself. \<^verbatim>\<open>model_params\<close> is an argument the native-graph strategy never reads.
\<close>

definition PyTorch_execute_body ::
  "'a env \<Rightarrow> ref \<Rightarrow> real option \<Rightarrow> QuantizationType option \<Rightarrow> DataManager option
     \<Rightarrow> 'a state \<Rightarrow> (pyerr + unit) \<times> 'a state" where
  "PyTorch_execute_body env model metric_drop_ths quantization_type input_data s =
     (let s1 = s\<lparr>logged := logged s @ [Info (info_message ''PyTorchTensorRTCompiler'' quantization_type)]\<rparr>;
          s2 = s1\<lparr>trace := trace s1 @ [Ev_check_quantization quantization_type metric_drop_ths]\<rparr> in
      case check_quantization env quantization_type metric_drop_ths of
        Some e \<Rightarrow> (Inl e, s2)
      | None \<Rightarrow>
          (case PyTorch_resolve_dtype quantization_type input_data s2 of
             (Inl e, s3) \<Rightarrow> (Inl e, s3)
           | (Inr (dtype, calibrator), s3) \<Rightarrow>
               (case PyTorch_input_tensors input_data s3 of
                  (Inl e, s4) \<Rightarrow> (Inl e, s4)
                | (Inr input_tensors, s4) \<Rightarrow>
                    (case PyTorch_compile_model env model input_tensors dtype
                            (if quantization_type = Some STATIC then calibrator else None)
                            quantization_type s4 of
                       (Inl e, s5) \<Rightarrow> (Inl e, s5)
                     | (Inr trt_model, s5) \<Rightarrow> (Inr (), s5\<lparr>compiled_model := Some trt_model\<rparr>)))))"

definition PyTorch_execute ::
  "'a env \<Rightarrow> DeviceType \<Rightarrow> ref \<Rightarrow> ModelParams \<Rightarrow> real option \<Rightarrow> QuantizationType option
     \<Rightarrow> DataManager option \<Rightarrow> 'a state \<Rightarrow> (pyerr + unit) \<times> 'a state" where
  "PyTorch_execute env device model model_params metric_drop_ths quantization_type input_data s =
     (case map_of supported_ops (device_value device) of
        None \<Rightarrow> (Inl (KeyError (device_value device)), s)
      | Some ops \<Rightarrow>
          if quantization_type \<notin> set ops then (Inr (), s\<lparr>compiled_model := None\<rparr>)
          else if quantization_type = Some STATIC \<and> input_data = None then
            (Inl (ValueError ''Input data is required for static quantization.''), s)
          else PyTorch_execute_body env model metric_drop_ths quantization_type input_data s)"

section \<open>The interchange-format strategy: \<^verbatim>\<open>ONNXTensorRTCompiler\<close>\<close>

text \<open>
  Line 243: the sample arrays, read from the train split before anything else is done with
  the model file.
\<close>

definition ONNX_train_input_data ::
  "'a env \<Rightarrow> DataManager option \<Rightarrow> 'a state \<Rightarrow> (pyerr + ndarray list list) \<times> 'a state" where
  "ONNX_train_input_data env input_data s =
     (case input_data of
        None \<Rightarrow> (Inl (AttributeError ''get_split''), s)
      | Some d \<Rightarrow>
          (let s1 = s\<lparr>trace := trace s @ [Ev_get_split ''train'']\<rparr> in
           case get_split d ''train'' of
             Inl e \<Rightarrow> (Inl e, s1)
           | Inr split \<Rightarrow>
               (let s2 = s1\<lparr>trace := trace s1 @ [Ev_get_numpy_list (QUANTIZATION_DATA_NUM env)]\<rparr> in
                case get_numpy_list split (QUANTIZATION_DATA_NUM env) of
                  Inl e \<Rightarrow> (Inl e, s2)
                | Inr arrays \<Rightarrow> (Inr arrays, s2))))"

text \<open>
  Lines 247 to 265: the simplification pre-pass. The \<^verbatim>\<open>except Exception\<close> clause catches
  a failing import and an exception of \<^verbatim>\<open>subprocess.run\<close>; \<^verbatim>\<open>subprocess.run\<close> is called
  without \<^verbatim>\<open>check=True\<close>, so a simplifier that exits with a non-zero status returns its
  status and raises nothing. The result is \<^verbatim>\<open>onnx_model_path\<close>.
\<close>

definition ONNX_simplify :: "'a env \<Rightarrow> string \<Rightarrow> 'a state \<Rightarrow> string \<times> 'a state" where
  "ONNX_simplify env model s =
     (let s1 = s\<lparr>trace := trace s @ [Ev_import_onnxsim]\<rparr> in
      case import_onnxsim env of
        Some _ \<Rightarrow> (model, s1)
      | None \<Rightarrow>
          (let simplified_model = model @ ''_simplified'' in
           if simplified_model \<notin> files s1 then
             (let cmd = [''onnxsim'', model, simplified_model];
                  s2 = s1\<lparr>trace := trace s1 @ [Ev_subprocess_run cmd]\<rparr>;
                  (r, fs) = subprocess_run env cmd (files s2);
                  s3 = s2\<lparr>files := fs\<rparr> in
              case r of
                Inl _ \<Rightarrow> (model, s3)
              | Inr _ \<Rightarrow> (simplified_model, s3))
           else (simplified_model, s1)))"

text \<open>Lines 267 to 285: logger, builder, network definition and builder configuration.\<close>

definition ONNX_build_phase :: "'a env \<Rightarrow> 'a state \<Rightarrow> (network \<times> config) \<times> 'a state" where
  "ONNX_build_phase env s =
     (let flag = 2 ^ EXPLICIT_BATCH env;
          s1 = s\<lparr>trace := trace s @ [Ev_Logger, Ev_Builder, Ev_create_network flag,
                                       Ev_create_builder_config]\<rparr>;
          network = \<lparr>net_flags = flag, net_parsed = None\<rparr>;
          config = \<lparr>cfg_memory_pool_limit = None, cfg_quantization = None,
                    cfg_calibration_data = None, cfg_profiles = []\<rparr> in
      if has_set_memory_pool_limit env then
        ((network, config\<lparr>cfg_memory_pool_limit := Some (2 ^ 30)\<rparr>),
         s1\<lparr>trace := trace s1 @ [Ev_set_memory_pool_limit (2 ^ 30)]\<rparr>)
      else
        ((network, config),
         s1\<lparr>logged := logged s1 @
            [Warning ''Cannot call method set_memory_pool_limit for TensorRT.Please update TensorRT version.'']\<rparr>))"

text \<open>
  Lines 287 to 296 with \<^verbatim>\<open>_quantize_model\<close>, which hands its arguments to
  \<^verbatim>\<open>quantize_tensorrt\<close>; that function receives the pipeline object and may append to it.
\<close>

definition ONNX_quantize_model ::
  "'a env \<Rightarrow> QuantizationType option \<Rightarrow> ModelParams \<Rightarrow> config \<Rightarrow> ndarray list list
     \<Rightarrow> 'a state \<Rightarrow> (pyerr + config) \<times> 'a state" where
  "ONNX_quantize_model env quantization_type model_params config train_input_data s =
     (case quantization_type of
        None \<Rightarrow> (Inr config, s)
      | Some q \<Rightarrow>
          (let data = (if quantization_type = Some STATIC then Some train_input_data else None);
               s1 = s\<lparr>trace := trace s @ [Ev_quantize_tensorrt q data]\<rparr>;
               (r, tfms) = quantize_tensorrt env q model_params config (input_tfms s1) data in
           (r, s1\<lparr>input_tfms := tfms\<rparr>)))"

text \<open>
  The shapes of one input in the optimization profile (lines 335 to 350):
  \<^verbatim>\<open>(input_info.min_sizes or {}).get(i + 1, 1)\<close> reads the dictionary, empty when the
  attribute is \<^verbatim>\<open>None\<close>, with the default 1.
\<close>

definition min_size_bound :: "InputInfo \<Rightarrow> int \<Rightarrow> int" where
  "min_size_bound input_info k =
     (case (case min_sizes input_info of None \<Rightarrow> Map.empty | Some m \<Rightarrow> m) k of
        None \<Rightarrow> 1
      | Some v \<Rightarrow> v)"

definition min_shape :: "int \<Rightarrow> int set \<Rightarrow> InputInfo \<Rightarrow> int list" where
  "min_shape bs input_dynamic_info input_info =
     (if 0 \<in> input_dynamic_info then min bs 1 else bs) #
     map (\<lambda>(i, shape). if int i + 1 \<notin> input_dynamic_info then shape
                         else min_size_bound input_info (int i + 1))
         (enumerate 0 (info_size input_info))"

definition profile_shapes :: "ModelParams \<Rightarrow> DynamicAxisInfo \<Rightarrow> string list \<Rightarrow> profile" where
  "profile_shapes model_params dyn names =
     map (\<lambda>(input_name, input_dynamic_info, input_info).
            (input_name,
             min_shape (batch_size model_params) input_dynamic_info input_info,
             batch_size model_params # info_size input_info,
             batch_size model_params # info_size input_info))
         (zip names (zip (inputs dyn) (input_infos model_params)))"

text \<open>\<^verbatim>\<open>_compile_model\<close>: parse, raise on a parse failure, attach the profile, build.\<close>

definition ONNX_compile_model ::
  "'a env \<Rightarrow> string \<Rightarrow> ModelParams \<Rightarrow> config \<Rightarrow> network \<Rightarrow> 'a state \<Rightarrow> (pyerr + 'a) \<times> 'a state" where
  "ONNX_compile_model env onnx_model_path model_params config network s =
     (let pr = parse_from_file env onnx_model_path (files s);
          s1 = s\<lparr>trace := trace s @ [Ev_OnnxParser,
                     Ev_parse_from_file onnx_model_path (success pr) (errors pr)]\<rparr> in
      if \<not> success pr then
        (Inl (ValueError (''Errors occurred while processing the ONNX file at '' @ onnx_model_path)),
         s1\<lparr>logged := logged s1 @ map Debug (errors pr)\<rparr>)
      else
        (let network1 = network\<lparr>net_parsed := Some onnx_model_path\<rparr>;
             (config1, s2) =
               (case dynamic_info model_params of
                  None \<Rightarrow> (config, s1)
                | Some dyn \<Rightarrow>
                    (let prof = profile_shapes model_params dyn (get_input_names env onnx_model_path) in
                     (config\<lparr>cfg_profiles := cfg_profiles config @ [prof]\<rparr>,
                      s1\<lparr>trace := trace s1 @
                            map (\<lambda>(n, mn, opt, mx). Ev_set_shape n mn opt mx) prof @
                            [Ev_add_optimization_profile]\<rparr>)));
             s3 = s2\<lparr>trace := trace s2 @ [Ev_build_serialized_network network1 config1]\<rparr> in
         (build_serialized_network env network1 config1, s3)))"

definition ONNX_execute_body ::
  "'a env \<Rightarrow> string \<Rightarrow> ModelParams \<Rightarrow> real option \<Rightarrow> QuantizationType option
     \<Rightarrow> DataManager option \<Rightarrow> 'a state \<Rightarrow> (pyerr + unit) \<times> 'a state" where
  "ONNX_execute_body env model model_params metric_drop_ths quantization_type input_data s =
     (let s1 = s\<lparr>logged := logged s @ [Info (info_message ''ONNXTensorRTCompiler'' quantization_type)]\<rparr>;
          s2 = s1\<lparr>trace := trace s1 @ [Ev_check_quantization quantization_type metric_drop_ths]\<rparr> in
      case check_quantization env quantization_type metric_drop_ths of
        Some e \<Rightarrow> (Inl e, s2)
      | None \<Rightarrow>
          (case ONNX_train_input_data env input_data s2 of
             (Inl e, s3) \<Rightarrow> (Inl e, s3)
           | (Inr train_input_data, s3) \<Rightarrow>
               (let (onnx_model_path, s4) = ONNX_simplify env model s3;
                    ((network, config), s5) = ONNX_build_phase env s4 in
                case ONNX_quantize_model env quantization_type model_params config train_input_data s5 of
                  (Inl e, s6) \<Rightarrow> (Inl e, s6)
                | (Inr config1, s6) \<Rightarrow>
                    (case ONNX_compile_model env onnx_model_path model_params config1 network s6 of
                       (Inl e, s7) \<Rightarrow> (Inl e, s7)
                     | (Inr engine, s7) \<Rightarrow>
                         (Inr (), s7\<lparr>compiled_model := Some engine,
                                     model_orig := Some onnx_model_path\<rparr>)))))"

definition ONNX_execute ::
  "'a env \<Rightarrow> DeviceType \<Rightarrow> string \<Rightarrow> ModelParams \<Rightarrow> real option \<Rightarrow> QuantizationType option
     \<Rightarrow> DataManager option \<Rightarrow> 'a state \<Rightarrow> (pyerr + unit) \<times> 'a state" where
  "ONNX_execute env device model model_params metric_drop_ths quantization_type input_data s =
     (case map_of supported_ops (device_value device) of
        None \<Rightarrow> (Inl (KeyError (device_value device)), s)
      | Some ops \<Rightarrow>
          if quantization_type \<notin> set ops then (Inr (), s\<lparr>compiled_model := None\<rparr>)
          else if quantization_type = Some STATIC \<and> input_data = None then
            (Inl (ValueError ''Input data is required for static quantization.''), s)
          else ONNX_execute_body env model model_params metric_drop_ths quantization_type input_data s)"

section \<open>Reading the log\<close>

text \<open>The messages written with \<^verbatim>\<open>self.logger.debug\<close>, in the order they were written.\<close>

fun debug_messages :: "log_entry list \<Rightarrow> string list" where
  "debug_messages [] = []"
| "debug_messages (Debug m # l) = m # debug_messages l"
| "debug_messages (Info m # l) = debug_messages l"
| "debug_messages (Warning m # l) = debug_messages l"

text \<open>The calls of \<^verbatim>\<open>profile.set_shape\<close> among the external calls.\<close>

fun is_set_shape :: "event \<Rightarrow> bool" where
  "is_set_shape (Ev_set_shape name mn opt mx) = True"
| "is_set_shape ev = False"

section \<open>Concrete runs\<close>

text \<open>
  Inputs and collaborators for the closed theorems below: a data source with one sample of
  a 64-bit token tensor and a 32-bit float tensor, a compiler object that has not run yet
  beside a model file, and three behaviours of the collaborators.
\<close>

definition token_ids :: tensor where
  "token_ids = \<lparr>t_shape = [1, 16], t_dtype = Int64, t_cuda = False\<rparr>"

definition pixels :: tensor where
  "pixels = \<lparr>t_shape = [1, 3, 224, 224], t_dtype = Float32, t_cuda = False\<rparr>"

definition train_split :: DataManager where
  "train_split =
     DataManager (\<lambda>n. Inr (replicate n [token_ids, pixels]))
                 (\<lambda>name. Inl (KeyError name))
                 (\<lambda>n. Inr (replicate n [NDArray [1, 16] Int64, NDArray [1, 3, 224, 224] Float32]))
                 1"

definition sample_data :: DataManager where
  "sample_data =
     DataManager (\<lambda>n. Inr (replicate n [token_ids, pixels]))
                 (\<lambda>name. if name = ''train'' then Inr train_split else Inl (KeyError name))
                 (\<lambda>n. Inr (replicate n [NDArray [1, 16] Int64, NDArray [1, 3, 224, 224] Float32]))
                 1"

definition eager_module :: module where
  "eager_module = \<lparr>m_cuda = False, m_training = True, m_dtype = Float32, m_traced = False\<rparr>"

definition fresh_state :: "nat state" where
  "fresh_state =
     \<lparr>compiled_model = None, model_orig = None, input_tfms = Some [],
      modules = [eager_module], files = {''model.onnx''}, logged = [], trace = []\<rparr>"

definition static_params :: ModelParams where
  "static_params =
     \<lparr>batch_size = 8,
      input_infos = [\<lparr>info_size = [3, 224, 224], min_sizes = None\<rparr>],
      dynamic_info = None\<rparr>"

definition dynamic_axes :: DynamicAxisInfo where
  "dynamic_axes = \<lparr>inputs = [{0, 2}]\<rparr>"

definition dynamic_params :: ModelParams where
  "dynamic_params =
     \<lparr>batch_size = 8,
      input_infos = [\<lparr>info_size = [3, 224, 224], min_sizes = Some [2 \<mapsto> 32]\<rparr>],
      dynamic_info = Some dynamic_axes\<rparr>"

text \<open>
  Every collaborator succeeds; the parser accepts exactly the files that exist, the
  simplifier writes its output file, and the compiler leaves a calibration cache behind.
\<close>

definition backend_ok :: "nat env" where
  "backend_ok =
     \<lparr>check_quantization = (\<lambda>q ths. None),
      jit_script = (\<lambda>m. None),
      jit_trace = (\<lambda>m ts. Inr (m\<lparr>m_traced := True\<rparr>)),
      TORCH_TENSORRT_PRECISIONS =
        [''torch.float32'' \<mapsto> [Float32],
         ''torch.float16'' \<mapsto> [Float32, Float16],
         ''torch.int8'' \<mapsto> [Float32, Float16, Int8]],
      torch_tensorrt_compile = (\<lambda>args m fs. (Inr 7, insert ''calibration.cache'' fs)),
      QUANTIZATION_DATA_NUM = 300,
      import_onnxsim = None,
      subprocess_run = (\<lambda>cmd fs. (Inr 0, insert (cmd ! 2) fs)),
      EXPLICIT_BATCH = 0,
      has_set_memory_pool_limit = True,
      quantize_tensorrt =
        (\<lambda>q mp cfg tfms data.
           (Inr (cfg\<lparr>cfg_quantization := Some q, cfg_calibration_data := data\<rparr>), tfms)),
      parse_from_file =
        (\<lambda>path fs. \<lparr>success = (path \<in> fs),
                      errors = (if path \<in> fs then [] else [''cannot open the file''])\<rparr>),
      get_input_names = (\<lambda>path. [''input_0'']),
      build_serialized_network = (\<lambda>net cfg. Inr 11)\<rparr>"

text \<open>The compiler writes the calibration cache and then raises.\<close>

definition backend_compile_raises :: "nat env" where
  "backend_compile_raises =
     backend_ok\<lparr>torch_tensorrt_compile :=
       (\<lambda>args m fs. (Inl (ExternalError ''out of memory''), insert ''calibration.cache'' fs))\<rparr>"

text \<open>The simplifier exits with status 1 and writes no file.\<close>

definition backend_simplifier_exits_nonzero :: "nat env" where
  "backend_simplifier_exits_nonzero = backend_ok\<lparr>subprocess_run := (\<lambda>cmd fs. (Inr 1, fs))\<rparr>"

text \<open>
  The arguments \<^verbatim>\<open>torch_tensorrt.compile\<close> is called with on the sample data under half
  precision: the module is the deep copy (reference 1), the token tensor is declared as a
  32-bit integer input.
\<close>

definition half_compile_args :: compile_args where
  "half_compile_args =
     \<lparr>ca_model = 1,
      ca_inputs = [([1, 16], Int32), ([1, 3, 224, 224], Float16)],
      ca_enabled_precisions = [Float32, Float16],
      ca_calibrator = None,
      ca_workspace_size = 2 ^ 30,
      ca_device = \<lparr>gpu_id = 0, dla_core = 0, allow_gpu_fallback = False, disable_tf32 = False\<rparr>,
      ca_truncate_long_and_double = True\<rparr>"

text \<open>
  The arguments \<^verbatim>\<open>torch_tensorrt.compile\<close> is called with on the sample data without
  quantization: the module is the original (reference 0).
\<close>

definition plain_compile_args :: compile_args where
  "plain_compile_args =
     \<lparr>ca_model = 0,
      ca_inputs = [([1, 16], Int32), ([1, 3, 224, 224], Float32)],
      ca_enabled_precisions = [Float32],
      ca_calibrator = None,
      ca_workspace_size = 2 ^ 30,
      ca_device = \<lparr>gpu_id = 0, dla_core = 0, allow_gpu_fallback = False, disable_tf32 = False\<rparr>,
      ca_truncate_long_and_double = True\<rparr>"

text \<open>
  A graph file with two inputs, with parameters that declare both of them and whose dynamic
  shape information has an entry for the first one only; and the network and the
  configuration the builder is called with on \<open>dynamic_params\<close>.
\<close>

definition backend_two_inputs :: "nat env" where
  "backend_two_inputs = backend_ok\<lparr>get_input_names := \<lambda>path. [''input_0'', ''input_1'']\<rparr>"

definition two_input_params :: ModelParams where
  "two_input_params =
     \<lparr>batch_size = 8,
      input_infos = [\<lparr>info_size = [3, 224, 224], min_sizes = None\<rparr>,
                     \<lparr>info_size = [16], min_sizes = None\<rparr>],
      dynamic_info = Some \<lparr>inputs = [{0}]\<rparr>\<rparr>"

definition built_network :: network where
  "built_network = \<lparr>net_flags = 1, net_parsed = Some ''model.onnx_simplified''\<rparr>"

definition built_config :: config where
  "built_config =
     \<lparr>cfg_memory_pool_limit = Some (2 ^ 30), cfg_quantization = None,
      cfg_calibration_data = None,
      cfg_profiles = [[(''input_0'', [1, 3, 32, 224], [8, 3, 224, 224], [8, 3, 224, 224])]]\<rparr>"

text \<open>The model file is malformed: the parser reports two diagnostics for every path.\<close>

definition backend_parse_fails :: "nat env" where
  "backend_parse_fails =
     backend_ok\<lparr>parse_from_file :=
       (\<lambda>path fs. \<lparr>success = False, errors = [''bad node'', ''unsupported operator'']\<rparr>)\<rparr>"

section \<open>Auxiliary facts\<close>

lemma debug_messages_append: "debug_messages (xs @ ys) = debug_messages xs @ debug_messages ys"
  by (induction xs rule: debug_messages.induct) simp_all

lemma debug_messages_map_Debug: "debug_messages (map Debug ms) = ms"
  by (induction ms) simp_all

lemma supported_ops_lookup:
  "map_of supported_ops (device_value device) =
     Some (case device of CPU \<Rightarrow> [] | GPU \<Rightarrow> [None, Some STATIC, Some HALF])"
  by (cases device) (simp_all add: supported_ops_def)

lemma supported_ops_cpu: "map_of supported_ops ''cpu'' = Some []"
  by (simp add: supported_ops_def)

lemma supported_ops_gpu: "map_of supported_ops ''gpu'' = Some [None, Some STATIC, Some HALF]"
  by (simp add: supported_ops_def)

lemmas PyTorch_defs = PyTorch_execute_def PyTorch_execute_body_def PyTorch_resolve_dtype_def
  PyTorch_input_tensors_def PyTorch_compile_model_def PyTorch_obtain_graph_def
  PyTorch_builder_call_def

lemmas ONNX_defs = ONNX_execute_def ONNX_execute_body_def ONNX_train_input_data_def
  ONNX_simplify_def ONNX_build_phase_def ONNX_quantize_model_def ONNX_compile_model_def

lemmas run_defs = backend_ok_def backend_compile_raises_def backend_simplifier_exits_nonzero_def
  backend_parse_fails_def fresh_state_def sample_data_def train_split_def static_params_def
  dynamic_params_def dynamic_axes_def eager_module_def supported_ops_cpu supported_ops_gpu Let_def

section \<open>What each step of the native-graph strategy does to the state\<close>

text \<open>
  One lemma per step: the fields the step leaves alone, the external calls it adds to the
  trace, and what its result tells. A call is new when it is in the trace after the step
  and was not in the trace before.
\<close>

lemma PyTorch_resolve_dtype_spec:
  assumes "PyTorch_resolve_dtype q d s = (r, s')"
  shows "compiled_model s' = compiled_model s \<and> model_orig s' = model_orig s \<and>
     modules s' = modules s \<and> files s' = files s \<and> logged s' = logged s \<and>
     set (trace s) \<subseteq> set (trace s') \<and>
     (\<forall>ev \<in> set (trace s'). ev \<in> set (trace s) \<or> ev = Ev_get_split ''train'') \<and>
     input_tfms s' =
       (if q = Some HALF then map_option (\<lambda>tfms. tfms @ [HalfPrecisionTransformation]) (input_tfms s)
        else input_tfms s) \<and>
     (\<forall>dt cal. r = Inr (dt, cal) \<longrightarrow>
        dt = (if q = Some HALF then Float16 else if q = Some STATIC then Int8 else Float32) \<and>
        (q \<noteq> Some STATIC \<longrightarrow> cal = None))"
  using assms
  by (auto simp: PyTorch_resolve_dtype_def Let_def split: option.splits sum.splits if_splits)

lemma PyTorch_input_tensors_spec:
  assumes "PyTorch_input_tensors input_data s = (r, s')"
  shows "compiled_model s' = compiled_model s \<and> model_orig s' = model_orig s \<and>
     modules s' = modules s \<and> files s' = files s \<and> logged s' = logged s \<and>
     input_tfms s' = input_tfms s \<and>
     set (trace s) \<subseteq> set (trace s') \<and>
     (\<forall>ev \<in> set (trace s'). ev \<in> set (trace s) \<or> ev = Ev_get_list 1) \<and>
     (input_data = None \<longrightarrow> r = Inl (AttributeError ''get_list'')) \<and>
     (\<forall>ts. r = Inr ts \<longrightarrow>
        (\<exists>d batch rest. input_data = Some d \<and> get_list d 1 = Inr (batch # rest) \<and>
           ts = map convert_tensor batch))"
  using assms
  by (auto simp: PyTorch_input_tensors_def Let_def split: option.splits sum.splits list.splits)

lemma PyTorch_obtain_graph_spec:
  assumes "PyTorch_obtain_graph env model input_tensors s = (r, s')"
  shows "compiled_model s' = compiled_model s \<and> model_orig s' = model_orig s \<and>
     files s' = files s \<and> logged s' = logged s \<and> input_tfms s' = input_tfms s \<and>
     set (trace s) \<subseteq> set (trace s') \<and>
     (\<forall>ev \<in> set (trace s'). ev \<in> set (trace s) \<or> ev = Ev_jit_script model \<or>
         ev = Ev_jit_trace model input_tensors) \<and>
     length (modules s) \<le> length (modules s') \<and>
     (model < length (modules s) \<longrightarrow>
        modules s' ! model = (modules s ! model)\<lparr>m_cuda := True, m_training := False\<rparr>)"
  using assms
  by (auto simp: PyTorch_obtain_graph_def Let_def nth_append split: option.splits sum.splits)

lemma PyTorch_builder_call_spec:
  assumes "PyTorch_builder_call env model input_tensors dtype calibrator q s = (r, s')"
  shows "compiled_model s' = compiled_model s \<and> model_orig s' = model_orig s \<and>
     logged s' = logged s \<and> input_tfms s' = input_tfms s \<and>
     length (modules s) \<le> length (modules s') \<and>
     (\<forall>i. i < length (modules s) \<longrightarrow> modules s' ! i = modules s ! i) \<and>
     set (trace s) \<subseteq> set (trace s') \<and>
     (\<forall>ev \<in> set (trace s'). ev \<in> set (trace s) \<or> (\<exists>m. ev = Ev_deepcopy_half model m) \<or>
        (\<exists>args. ev = Ev_torch_tensorrt_compile args \<and>
           ca_inputs args = map (input_spec dtype) input_tensors \<and>
           ca_calibrator args = (if q = Some STATIC then calibrator else None) \<and>
           (dtype = Float16 \<longrightarrow> length (modules s) \<le> ca_model args \<and>
              ca_model args < length (modules s') \<and>
              m_dtype (modules s' ! ca_model args) = Float16))) \<and>
     (\<forall>a. r = Inr a \<longrightarrow>
        (\<exists>args. Ev_torch_tensorrt_compile args \<in> set (trace s') \<and>
           fst (torch_tensorrt_compile env args (modules s' ! ca_model args) (files s)) = Inr a))"
  using assms
  by (auto simp: PyTorch_builder_call_def Let_def nth_append split: option.splits sum.splits prod.splits if_splits)

lemma PyTorch_compile_model_spec:
  assumes run: "PyTorch_compile_model env model input_tensors dtype calibrator q s = (r, s')"
  shows "compiled_model s' = compiled_model s \<and> model_orig s' = model_orig s \<and>
     logged s' = logged s \<and> input_tfms s' = input_tfms s \<and>
     length (modules s) \<le> length (modules s') \<and>
     (model < length (modules s) \<longrightarrow>
        modules s' ! model = (modules s ! model)\<lparr>m_cuda := True, m_training := False\<rparr>) \<and>
     (\<forall>a. r = Inr a \<longrightarrow> ''calibration.cache'' \<notin> files s') \<and>
     set (trace s) \<subseteq> set (trace s') \<and>
     (\<forall>ev \<in> set (trace s'). ev \<in> set (trace s) \<or> ev = Ev_jit_script model \<or>
        ev = Ev_jit_trace model input_tensors \<or> (\<exists>m0 m. ev = Ev_deepcopy_half m0 m) \<or>
        (\<exists>args. ev = Ev_torch_tensorrt_compile args \<and>
           ca_inputs args = map (input_spec dtype) input_tensors \<and>
           ca_calibrator args = (if q = Some STATIC then calibrator else None) \<and>
           (dtype = Float16 \<longrightarrow> length (modules s) \<le> ca_model args \<and>
              ca_model args < length (modules s') \<and>
              m_dtype (modules s' ! ca_model args) = Float16))) \<and>
     (\<forall>a. r = Inr a \<longrightarrow>
        (\<exists>args m fs. Ev_torch_tensorrt_compile args \<in> set (trace s') \<and>
           fst (torch_tensorrt_compile env args m fs) = Inr a))"
proof -
  obtain r1 s1 where g: "PyTorch_obtain_graph env model input_tensors s = (r1, s1)"
    by (cases "PyTorch_obtain_graph env model input_tensors s")
  note G = PyTorch_obtain_graph_spec [OF g]
  show ?thesis
  proof (cases r1)
    case (Inl e)
    with run g have eq: "s' = s1" "r = Inl e"
      by (simp_all add: PyTorch_compile_model_def)
    from G show ?thesis unfolding eq by blast
  next
    case (Inr m1)
    obtain r2 s2 where b: "PyTorch_builder_call env m1 input_tensors dtype calibrator q s1 = (r2, s2)"
      by (cases "PyTorch_builder_call env m1 input_tensors dtype calibrator q s1")
    note B = PyTorch_builder_call_spec [OF b]
    from run g b Inr have eq: "r = r2" "trace s' = trace s2" "modules s' = modules s2"
        "compiled_model s' = compiled_model s2" "model_orig s' = model_orig s2"
        "logged s' = logged s2" "input_tfms s' = input_tfms s2"
        "\<forall>a. r = Inr a \<longrightarrow> ''calibration.cache'' \<notin> files s'"
      by (auto simp: PyTorch_compile_model_def split: sum.splits if_splits)
    have frame: "compiled_model s' = compiled_model s \<and> model_orig s' = model_orig s \<and>
        logged s' = logged s \<and> input_tfms s' = input_tfms s"
      using G B eq by simp
    have len: "length (modules s) \<le> length (modules s')"
      using G B eq by simp
    have orig: "model < length (modules s) \<longrightarrow>
        modules s' ! model = (modules s ! model)\<lparr>m_cuda := True, m_training := False\<rparr>"
      using G B eq by simp
    have mono: "set (trace s) \<subseteq> set (trace s')"
      using G B eq by auto
    have evs: "\<forall>ev \<in> set (trace s'). ev \<in> set (trace s) \<or> ev = Ev_jit_script model \<or>
        ev = Ev_jit_trace model input_tensors \<or> (\<exists>m0 m. ev = Ev_deepcopy_half m0 m) \<or>
        (\<exists>args. ev = Ev_torch_tensorrt_compile args \<and>
           ca_inputs args = map (input_spec dtype) input_tensors \<and>
           ca_calibrator args = (if q = Some STATIC then calibrator else None) \<and>
           (dtype = Float16 \<longrightarrow> length (modules s) \<le> ca_model args \<and>
              ca_model args < length (modules s') \<and>
              m_dtype (modules s' ! ca_model args) = Float16))"
    proof
      fix ev assume "ev \<in> set (trace s')"
      then have "ev \<in> set (trace s2)" using eq by simp
      with B have "ev \<in> set (trace s1) \<or> (\<exists>m. ev = Ev_deepcopy_half m1 m) \<or>
        (\<exists>args. ev = Ev_torch_tensorrt_compile args \<and>
           ca_inputs args = map (input_spec dtype) input_tensors \<and>
           ca_calibrator args = (if q = Some STATIC then calibrator else None) \<and>
           (dtype = Float16 \<longrightarrow> length (modules s1) \<le> ca_model args \<and>
              ca_model args < length (modules s2) \<and>
              m_dtype (modules s2 ! ca_model args) = Float16))"
        by blast
      moreover have "ev \<in> set (trace s1) \<longrightarrow> ev \<in> set (trace s) \<or> ev = Ev_jit_script model \<or>
         ev = Ev_jit_trace model input_tensors"
        using G by blast
      moreover have "length (modules s) \<le> length (modules s1)" using G by simp
      ultimately show "ev \<in> set (trace s) \<or> ev = Ev_jit_script model \<or>
        ev = Ev_jit_trace model input_tensors \<or> (\<exists>m0 m. ev = Ev_deepcopy_half m0 m) \<or>
        (\<exists>args. ev = Ev_torch_tensorrt_compile args \<and>
           ca_inputs args = map (input_spec dtype) input_tensors \<and>
           ca_calibrator args = (if q = Some STATIC then calibrator else None) \<and>
           (dtype = Float16 \<longrightarrow> length (modules s) \<le> ca_model args \<and>
              ca_model args < length (modules s') \<and>
              m_dtype (modules s' ! ca_model args) = Float16))"
        unfolding eq(3) by (elim disjE exE conjE) auto
    qed
    have art: "\<forall>a. r = Inr a \<longrightarrow>
        (\<exists>args m fs. Ev_torch_tensorrt_compile args \<in> set (trace s') \<and>
           fst (torch_tensorrt_compile env args m fs) = Inr a)"
      using B eq by metis
    from frame len orig eq(8) mono evs art show ?thesis by blast
  qed
qed

lemma PyTorch_execute_body_cases:
  assumes run: "PyTorch_execute_body env model ths q input_data s = (r, s')"
  obtains
    (check) e where "check_quantization env q ths = Some e" "r = Inl e"
      "s' = s\<lparr>logged := logged s @ [Info (info_message ''PyTorchTensorRTCompiler'' q)],
               trace := trace s @ [Ev_check_quantization q ths]\<rparr>"
  | (resolve) e where "check_quantization env q ths = None" "r = Inl e"
      "PyTorch_resolve_dtype q input_data
         (s\<lparr>logged := logged s @ [Info (info_message ''PyTorchTensorRTCompiler'' q)],
            trace := trace s @ [Ev_check_quantization q ths]\<rparr>) = (Inl e, s')"
  | (inputs) e dt cal s3 where "check_quantization env q ths = None" "r = Inl e"
      "PyTorch_resolve_dtype q input_data
         (s\<lparr>logged := logged s @ [Info (info_message ''PyTorchTensorRTCompiler'' q)],
            trace := trace s @ [Ev_check_quantization q ths]\<rparr>) = (Inr (dt, cal), s3)"
      "PyTorch_input_tensors input_data s3 = (Inl e, s')"
  | (compile) r5 dt cal s3 ts s4 s5 where "check_quantization env q ths = None"
      "PyTorch_resolve_dtype q input_data
         (s\<lparr>logged := logged s @ [Info (info_message ''PyTorchTensorRTCompiler'' q)],
            trace := trace s @ [Ev_check_quantization q ths]\<rparr>) = (Inr (dt, cal), s3)"
      "PyTorch_input_tensors input_data s3 = (Inr ts, s4)"
      "PyTorch_compile_model env model ts dt (if q = Some STATIC then cal else None) q s4 = (r5, s5)"
      "(\<exists>e. r5 = Inl e \<and> r = Inl e \<and> s' = s5) \<or>
       (\<exists>a. r5 = Inr a \<and> r = Inr () \<and> s' = s5\<lparr>compiled_model := Some a\<rparr>)"
  using run
  by (auto simp: PyTorch_execute_body_def Let_def split: option.splits sum.splits prod.splits)

lemma PyTorch_body_result:
  assumes run: "PyTorch_execute_body env model ths q input_data s = (r, s')"
  shows "(\<forall>e. r = Inl e \<longrightarrow> compiled_model s' = compiled_model s) \<and>
     (r = Inr () \<longrightarrow> ''calibration.cache'' \<notin> files s' \<and>
        (\<exists>a args m fs. compiled_model s' = Some a \<and>
           Ev_torch_tensorrt_compile args \<in> set (trace s') \<and>
           fst (torch_tensorrt_compile env args m fs) = Inr a)) \<and>
     (input_data = None \<longrightarrow> (\<exists>e. r = Inl e))"
  using run
proof (cases rule: PyTorch_execute_body_cases)
  case (check e)
  then show ?thesis by simp
next
  case (resolve e)
  from PyTorch_resolve_dtype_spec [OF resolve(3)] resolve(2) show ?thesis by simp
next
  case (inputs e dt cal s3)
  from PyTorch_resolve_dtype_spec [OF inputs(3)] PyTorch_input_tensors_spec [OF inputs(4)] inputs(2)
  show ?thesis by simp
next
  case (compile r5 dt cal s3 ts s4 s5)
  note R = PyTorch_resolve_dtype_spec [OF compile(2)]
  note I = PyTorch_input_tensors_spec [OF compile(3)]
  note C = PyTorch_compile_model_spec [OF compile(4)]
  from I have nn: "input_data \<noteq> None" by auto
  from compile(5) show ?thesis
  proof (elim disjE exE conjE)
    fix e assume "r5 = Inl e" "r = Inl e" "s' = s5"
    with R I C nn show ?thesis by simp
  next
    fix a assume a: "r5 = Inr a" "r = Inr ()" "s' = s5\<lparr>compiled_model := Some a\<rparr>"
    with C have "''calibration.cache'' \<notin> files s'" by simp
    moreover from C a obtain args m fs where "Ev_torch_tensorrt_compile args \<in> set (trace s5)"
        "fst (torch_tensorrt_compile env args m fs) = Inr a" by blast
    ultimately show ?thesis using a nn by auto
  qed
qed

lemma PyTorch_body_events:
  assumes run: "PyTorch_execute_body env model ths q input_data s = (r, s')"
  shows "set (trace s) \<subseteq> set (trace s') \<and>
     (\<forall>args. Ev_torch_tensorrt_compile args \<in> set (trace s') \<longrightarrow>
        Ev_torch_tensorrt_compile args \<in> set (trace s) \<or>
        (\<exists>d batch rest. input_data = Some d \<and> get_list d 1 = Inr (batch # rest) \<and>
           ca_inputs args =
             map (input_spec (if q = Some HALF then Float16
                              else if q = Some STATIC then Int8 else Float32))
                 (map convert_tensor batch)) \<and>
        (q \<noteq> Some STATIC \<longrightarrow> ca_calibrator args = None) \<and>
        (q = Some HALF \<longrightarrow> length (modules s) \<le> ca_model args \<and>
           ca_model args < length (modules s') \<and>
           m_dtype (modules s' ! ca_model args) = Float16)) \<and>
     (\<forall>m ts. Ev_jit_trace m ts \<in> set (trace s') \<longrightarrow>
        Ev_jit_trace m ts \<in> set (trace s) \<or>
        (\<exists>d batch rest. input_data = Some d \<and> get_list d 1 = Inr (batch # rest) \<and>
           ts = map convert_tensor batch))"
  using run
proof (cases rule: PyTorch_execute_body_cases)
  case (check e)
  then show ?thesis by auto
next
  case (resolve e)
  from PyTorch_resolve_dtype_spec [OF resolve(3)] show ?thesis by auto
next
  case (inputs e dt cal s3)
  from PyTorch_resolve_dtype_spec [OF inputs(3)] PyTorch_input_tensors_spec [OF inputs(4)]
  show ?thesis by auto
next
  case (compile r5 dt cal s3 ts s4 s5)
  note R = PyTorch_resolve_dtype_spec [OF compile(2)]
  note I = PyTorch_input_tensors_spec [OF compile(3)]
  note C = PyTorch_compile_model_spec [OF compile(4)]
  from compile(5) have eq: "trace s' = trace s5" "modules s' = modules s5" by auto
  from R have dt: "dt = (if q = Some HALF then Float16 else if q = Some STATIC then Int8 else Float32)"
    and cal: "q \<noteq> Some STATIC \<longrightarrow> cal = None" by auto
  from I obtain d batch rest where d: "input_data = Some d" "get_list d 1 = Inr (batch # rest)"
      "ts = map convert_tensor batch" by auto
  have old: "\<And>ev. ev \<in> set (trace s4) \<Longrightarrow> ev \<in> set (trace s) \<or>
      ev = Ev_check_quantization q ths \<or> ev = Ev_get_split ''train'' \<or> ev = Ev_get_list 1"
    using R I by auto
  have len: "length (modules s) \<le> length (modules s4)" using R I by simp
  have mono: "set (trace s) \<subseteq> set (trace s')" using R I C eq by auto
  have comp: "\<forall>args. Ev_torch_tensorrt_compile args \<in> set (trace s') \<longrightarrow>
        Ev_torch_tensorrt_compile args \<in> set (trace s) \<or>
        (\<exists>d batch rest. input_data = Some d \<and> get_list d 1 = Inr (batch # rest) \<and>
           ca_inputs args =
             map (input_spec (if q = Some HALF then Float16
                              else if q = Some STATIC then Int8 else Float32))
                 (map convert_tensor batch)) \<and>
        (q \<noteq> Some STATIC \<longrightarrow> ca_calibrator args = None) \<and>
        (q = Some HALF \<longrightarrow> length (modules s) \<le> ca_model args \<and>
           ca_model args < length (modules s') \<and>
           m_dtype (modules s' ! ca_model args) = Float16)"
  proof (intro allI impI)
    fix args assume "Ev_torch_tensorrt_compile args \<in> set (trace s')"
    then have "Ev_torch_tensorrt_compile args \<in> set (trace s5)" using eq by simp
    with C have "Ev_torch_tensorrt_compile args \<in> set (trace s4) \<or>
        (ca_inputs args = map (input_spec dt) ts \<and>
         ca_calibrator args = (if q = Some STATIC then (if q = Some STATIC then cal else None) else None) \<and>
         (dt = Float16 \<longrightarrow> length (modules s4) \<le> ca_model args \<and>
            ca_model args < length (modules s5) \<and>
            m_dtype (modules s5 ! ca_model args) = Float16))"
      by auto
    then show "Ev_torch_tensorrt_compile args \<in> set (trace s) \<or>
        (\<exists>d batch rest. input_data = Some d \<and> get_list d 1 = Inr (batch # rest) \<and>
           ca_inputs args =
             map (input_spec (if q = Some HALF then Float16
                              else if q = Some STATIC then Int8 else Float32))
                 (map convert_tensor batch)) \<and>
        (q \<noteq> Some STATIC \<longrightarrow> ca_calibrator args = None) \<and>
        (q = Some HALF \<longrightarrow> length (modules s) \<le> ca_model args \<and>
           ca_model args < length (modules s') \<and>
           m_dtype (modules s' ! ca_model args) = Float16)"
    proof
      assume "Ev_torch_tensorrt_compile args \<in> set (trace s4)"
      from old [OF this] show ?thesis by simp
    next
      assume a: "ca_inputs args = map (input_spec dt) ts \<and>
         ca_calibrator args = (if q = Some STATIC then (if q = Some STATIC then cal else None) else None) \<and>
         (dt = Float16 \<longrightarrow> length (modules s4) \<le> ca_model args \<and>
            ca_model args < length (modules s5) \<and>
            m_dtype (modules s5 ! ca_model args) = Float16)"
      have "\<exists>d batch rest. input_data = Some d \<and> get_list d 1 = Inr (batch # rest) \<and>
           ca_inputs args =
             map (input_spec (if q = Some HALF then Float16
                              else if q = Some STATIC then Int8 else Float32))
                 (map convert_tensor batch)"
        using a d dt by blast
      moreover have "q \<noteq> Some STATIC \<longrightarrow> ca_calibrator args = None" using a by simp
      moreover have "q = Some HALF \<longrightarrow> length (modules s) \<le> ca_model args \<and>
           ca_model args < length (modules s') \<and>
           m_dtype (modules s' ! ca_model args) = Float16"
        using a dt len eq by auto
      ultimately show ?thesis by blast
    qed
  qed
  have jit: "\<forall>m ts'. Ev_jit_trace m ts' \<in> set (trace s') \<longrightarrow>
        Ev_jit_trace m ts' \<in> set (trace s) \<or>
        (\<exists>d batch rest. input_data = Some d \<and> get_list d 1 = Inr (batch # rest) \<and>
           ts' = map convert_tensor batch)"
  proof (intro allI impI)
    fix m ts' assume "Ev_jit_trace m ts' \<in> set (trace s')"
    then have "Ev_jit_trace m ts' \<in> set (trace s5)" using eq by simp
    with C have "Ev_jit_trace m ts' \<in> set (trace s4) \<or> ts' = ts" by auto
    then show "Ev_jit_trace m ts' \<in> set (trace s) \<or>
        (\<exists>d batch rest. input_data = Some d \<and> get_list d 1 = Inr (batch # rest) \<and>
           ts' = map convert_tensor batch)"
    proof
      assume "Ev_jit_trace m ts' \<in> set (trace s4)"
      from old [OF this] show ?thesis by simp
    next
      assume "ts' = ts"
      with d show ?thesis by blast
    qed
  qed
  from mono comp jit show ?thesis by blast
qed


lemma PyTorch_execute_new_event:
  assumes "ev \<in> set (trace (snd (PyTorch_execute env device model model_params metric_drop_ths quantization_type input_data s)))"
    and "ev \<notin> set (trace s)"
  shows "PyTorch_execute env device model model_params metric_drop_ths quantization_type input_data s
           = PyTorch_execute_body env model metric_drop_ths quantization_type input_data s"
  using assms
  by (auto simp: PyTorch_execute_def supported_ops_lookup split: if_splits)

section \<open>What each step of the interchange-format strategy does to the state\<close>

lemma ONNX_train_input_data_spec:
  assumes "ONNX_train_input_data env input_data s = (r, s')"
  shows "compiled_model s' = compiled_model s \<and> model_orig s' = model_orig s \<and>
     modules s' = modules s \<and> files s' = files s \<and> logged s' = logged s \<and>
     input_tfms s' = input_tfms s \<and>
     set (trace s) \<subseteq> set (trace s') \<and>
     (\<forall>ev \<in> set (trace s'). ev \<in> set (trace s) \<or> ev = Ev_get_split ''train'' \<or>
        ev = Ev_get_numpy_list (QUANTIZATION_DATA_NUM env)) \<and>
     (input_data = None \<longrightarrow> r = Inl (AttributeError ''get_split''))"
  using assms
  by (auto simp: ONNX_train_input_data_def Let_def split: option.splits sum.splits)

lemma ONNX_simplify_spec:
  assumes "ONNX_simplify env model s = (p, s')"
  shows "compiled_model s' = compiled_model s \<and> model_orig s' = model_orig s \<and>
     modules s' = modules s \<and> logged s' = logged s \<and> input_tfms s' = input_tfms s \<and>
     set (trace s) \<subseteq> set (trace s') \<and>
     (\<forall>ev \<in> set (trace s'). ev \<in> set (trace s) \<or> ev = Ev_import_onnxsim \<or>
        ev = Ev_subprocess_run [''onnxsim'', model, model @ ''_simplified'']) \<and>
     (p = model \<or> p = model @ ''_simplified'')"
  using assms
  by (auto simp: ONNX_simplify_def Let_def split: option.splits sum.splits prod.splits if_splits)

lemma ONNX_build_phase_spec:
  assumes "ONNX_build_phase env s = ((network, config), s')"
  shows "compiled_model s' = compiled_model s \<and> model_orig s' = model_orig s \<and>
     modules s' = modules s \<and> files s' = files s \<and> input_tfms s' = input_tfms s \<and>
     debug_messages (logged s') = debug_messages (logged s) \<and>
     set (trace s) \<subseteq> set (trace s') \<and>
     (\<forall>ev \<in> set (trace s'). ev \<in> set (trace s) \<or> ev = Ev_Logger \<or> ev = Ev_Builder \<or>
        ev = Ev_create_network (2 ^ EXPLICIT_BATCH env) \<or> ev = Ev_create_builder_config \<or>
        ev = Ev_set_memory_pool_limit (2 ^ 30))"
  using assms
  by (auto simp: ONNX_build_phase_def Let_def debug_messages_append split: if_splits)

lemma ONNX_quantize_model_spec:
  assumes "ONNX_quantize_model env q model_params config train_input_data s = (r, s')"
  shows "compiled_model s' = compiled_model s \<and> model_orig s' = model_orig s \<and>
     modules s' = modules s \<and> files s' = files s \<and> logged s' = logged s \<and>
     set (trace s) \<subseteq> set (trace s') \<and>
     (\<forall>ev \<in> set (trace s'). ev \<in> set (trace s) \<or>
        (\<exists>q' data. ev = Ev_quantize_tensorrt q' data \<and> q = Some q' \<and>
           data = (if q = Some STATIC then Some train_input_data else None)))"
  using assms
  by (auto simp: ONNX_quantize_model_def Let_def split: option.splits prod.splits)

lemma ONNX_compile_model_spec:
  assumes "ONNX_compile_model env path model_params config network s = (r, s')"
  shows "compiled_model s' = compiled_model s \<and> model_orig s' = model_orig s \<and>
     modules s' = modules s \<and> files s' = files s \<and> input_tfms s' = input_tfms s \<and>
     set (trace s) \<subseteq> set (trace s') \<and>
     Ev_parse_from_file path (success (parse_from_file env path (files s)))
        (errors (parse_from_file env path (files s))) \<in> set (trace s') \<and>
     (\<forall>p ok errs. Ev_parse_from_file p ok errs \<in> set (trace s') \<longrightarrow>
        Ev_parse_from_file p ok errs \<in> set (trace s) \<or>
        (p = path \<and> ok = success (parse_from_file env path (files s)) \<and>
         errs = errors (parse_from_file env path (files s)))) \<and>
     (\<forall>n c. Ev_build_serialized_network n c \<in> set (trace s') \<longrightarrow>
        Ev_build_serialized_network n c \<in> set (trace s) \<or>
        (success (parse_from_file env path (files s)) \<and> r = build_serialized_network env n c)) \<and>
     (\<forall>q' data. Ev_quantize_tensorrt q' data \<in> set (trace s') \<longrightarrow>
        Ev_quantize_tensorrt q' data \<in> set (trace s)) \<and>
     (\<not> success (parse_from_file env path (files s)) \<longrightarrow>
        r = Inl (ValueError (''Errors occurred while processing the ONNX file at '' @ path)) \<and>
        debug_messages (logged s') =
          debug_messages (logged s) @ errors (parse_from_file env path (files s))) \<and>
     (success (parse_from_file env path (files s)) \<longrightarrow> logged s' = logged s) \<and>
     (success (parse_from_file env path (files s)) \<longrightarrow>
        Ev_build_serialized_network (network\<lparr>net_parsed := Some path\<rparr>)
          (case dynamic_info model_params of
             None \<Rightarrow> config
           | Some dyn \<Rightarrow> config\<lparr>cfg_profiles := cfg_profiles config @
               [profile_shapes model_params dyn (get_input_names env path)]\<rparr>)
          \<in> set (trace s') \<and>
        r = build_serialized_network env (network\<lparr>net_parsed := Some path\<rparr>)
          (case dynamic_info model_params of
             None \<Rightarrow> config
           | Some dyn \<Rightarrow> config\<lparr>cfg_profiles := cfg_profiles config @
               [profile_shapes model_params dyn (get_input_names env path)]\<rparr>))"
  using assms
  by (auto simp: ONNX_compile_model_def Let_def debug_messages_append debug_messages_map_Debug
        split: option.splits prod.splits if_splits)

lemma ONNX_compile_model_set_shape:
  assumes "ONNX_compile_model env path model_params config network s = (r, s')"
    and "success (parse_from_file env path (files s))"
    and "dynamic_info model_params = Some dyn"
    and "(name, mn, opt, mx) \<in> set (profile_shapes model_params dyn (get_input_names env path))"
  shows "Ev_set_shape name mn opt mx \<in> set (trace s')"
  using assms
  by (force simp: ONNX_compile_model_def Let_def split: prod.splits)

lemma ONNX_execute_body_cases:
  assumes run: "ONNX_execute_body env model mp ths q input_data s = (r, s')"
  obtains
    (check) e where "check_quantization env q ths = Some e" "r = Inl e"
      "s' = s\<lparr>logged := logged s @ [Info (info_message ''ONNXTensorRTCompiler'' q)],
               trace := trace s @ [Ev_check_quantization q ths]\<rparr>"
  | (train) e where "check_quantization env q ths = None" "r = Inl e"
      "ONNX_train_input_data env input_data
         (s\<lparr>logged := logged s @ [Info (info_message ''ONNXTensorRTCompiler'' q)],
            trace := trace s @ [Ev_check_quantization q ths]\<rparr>) = (Inl e, s')"
  | (quantize) e arrays s3 path s4 network config s5 where
      "check_quantization env q ths = None" "r = Inl e"
      "ONNX_train_input_data env input_data
         (s\<lparr>logged := logged s @ [Info (info_message ''ONNXTensorRTCompiler'' q)],
            trace := trace s @ [Ev_check_quantization q ths]\<rparr>) = (Inr arrays, s3)"
      "ONNX_simplify env model s3 = (path, s4)"
      "ONNX_build_phase env s4 = ((network, config), s5)"
      "ONNX_quantize_model env q mp config arrays s5 = (Inl e, s')"
  | (compile) r7 arrays s3 path s4 network config s5 config1 s6 s7 where
      "check_quantization env q ths = None"
      "ONNX_train_input_data env input_data
         (s\<lparr>logged := logged s @ [Info (info_message ''ONNXTensorRTCompiler'' q)],
            trace := trace s @ [Ev_check_quantization q ths]\<rparr>) = (Inr arrays, s3)"
      "ONNX_simplify env model s3 = (path, s4)"
      "ONNX_build_phase env s4 = ((network, config), s5)"
      "ONNX_quantize_model env q mp config arrays s5 = (Inr config1, s6)"
      "ONNX_compile_model env path mp config1 network s6 = (r7, s7)"
      "(\<exists>e. r7 = Inl e \<and> r = Inl e \<and> s' = s7) \<or>
       (\<exists>a. r7 = Inr a \<and> r = Inr () \<and>
          s' = s7\<lparr>compiled_model := Some a, model_orig := Some path\<rparr>)"
  using run
  by (auto simp: ONNX_execute_body_def Let_def split: option.splits sum.splits prod.splits)

lemma ONNX_body_result:
  assumes run: "ONNX_execute_body env model mp ths q input_data s = (r, s')"
  shows "(\<forall>e. r = Inl e \<longrightarrow> compiled_model s' = compiled_model s \<and> model_orig s' = model_orig s) \<and>
     (r = Inr () \<longrightarrow>
        (\<exists>a n c. compiled_model s' = Some a \<and>
           Ev_build_serialized_network n c \<in> set (trace s') \<and>
           build_serialized_network env n c = Inr a)) \<and>
     (input_data = None \<longrightarrow> (\<exists>e. r = Inl e)) \<and>
     modules s' = modules s"
  using run
proof (cases rule: ONNX_execute_body_cases)
  case (check e)
  then show ?thesis by simp
next
  case (train e)
  from ONNX_train_input_data_spec [OF train(3)] train(2) show ?thesis by simp
next
  case (quantize e arrays s3 path s4 network config s5)
  from ONNX_train_input_data_spec [OF quantize(3)] ONNX_simplify_spec [OF quantize(4)]
    ONNX_build_phase_spec [OF quantize(5)] ONNX_quantize_model_spec [OF quantize(6)] quantize(2)
  show ?thesis by simp
next
  case (compile r7 arrays s3 path s4 network config s5 config1 s6 s7)
  note T = ONNX_train_input_data_spec [OF compile(2)]
  note S = ONNX_simplify_spec [OF compile(3)]
  note B = ONNX_build_phase_spec [OF compile(4)]
  note Q = ONNX_quantize_model_spec [OF compile(5)]
  note C = ONNX_compile_model_spec [OF compile(6)]
  from T have nn: "input_data \<noteq> None" by auto
  have fr: "compiled_model s7 = compiled_model s" "model_orig s7 = model_orig s"
    "modules s7 = modules s"
    using T S B Q C by simp_all
  from compile(7) show ?thesis
  proof (elim disjE exE conjE)
    fix e assume "r7 = Inl e" "r = Inl e" "s' = s7"
    with fr nn show ?thesis by simp
  next
    fix a assume a: "r7 = Inr a" "r = Inr ()"
      "s' = s7\<lparr>compiled_model := Some a, model_orig := Some path\<rparr>"
    have "success (parse_from_file env path (files s6))"
      using C a(1) by (cases "success (parse_from_file env path (files s6))") auto
    with C a(1) obtain n c where "Ev_build_serialized_network n c \<in> set (trace s7)"
      "build_serialized_network env n c = Inr a" by metis
    then show ?thesis using a fr nn by auto
  qed
qed

lemma ONNX_before_compile:
  assumes T: "ONNX_train_input_data env input_data
         (s\<lparr>logged := logged s @ [Info (info_message ''ONNXTensorRTCompiler'' q)],
            trace := trace s @ [Ev_check_quantization q ths]\<rparr>) = (Inr arrays, s3)"
    and S: "ONNX_simplify env model s3 = (path, s4)"
    and B: "ONNX_build_phase env s4 = ((network, config), s5)"
    and Q: "ONNX_quantize_model env q mp config arrays s5 = (rq, s6)"
  shows "set (trace s) \<subseteq> set (trace s6)"
    and "\<And>ev. ev \<in> set (trace s6) \<Longrightarrow> ev \<in> set (trace s) \<or>
      ev = Ev_check_quantization q ths \<or> ev = Ev_get_split ''train'' \<or>
      ev = Ev_get_numpy_list (QUANTIZATION_DATA_NUM env) \<or> ev = Ev_import_onnxsim \<or>
      ev = Ev_subprocess_run [''onnxsim'', model, model @ ''_simplified''] \<or>
      ev = Ev_Logger \<or> ev = Ev_Builder \<or>
      ev = Ev_create_network (2 ^ EXPLICIT_BATCH env) \<or> ev = Ev_create_builder_config \<or>
      ev = Ev_set_memory_pool_limit (2 ^ 30) \<or>
      (\<exists>q' data. ev = Ev_quantize_tensorrt q' data \<and> q = Some q' \<and>
           data = (if q = Some STATIC then Some arrays else None))"
    and "debug_messages (logged s6) = debug_messages (logged s)"
    and "path = model \<or> path = model @ ''_simplified''"
proof -
  note t = ONNX_train_input_data_spec [OF T]
  note s = ONNX_simplify_spec [OF S]
  note b = ONNX_build_phase_spec [OF B]
  note q = ONNX_quantize_model_spec [OF Q]
  have "set (trace s) \<subseteq> set (trace s3)" using t by auto
  moreover have "set (trace s3) \<subseteq> set (trace s4)" using s by blast
  moreover have "set (trace s4) \<subseteq> set (trace s5)" using b by blast
  moreover have "set (trace s5) \<subseteq> set (trace s6)" using q by blast
  ultimately show "set (trace s) \<subseteq> set (trace s6)" by blast
  show "debug_messages (logged s6) = debug_messages (logged s)"
    using t s b q by (simp add: debug_messages_append)
  show "path = model \<or> path = model @ ''_simplified''" using s by blast
  fix ev assume "ev \<in> set (trace s6)"
  with q have "ev \<in> set (trace s5) \<or> (\<exists>q' data. ev = Ev_quantize_tensorrt q' data \<and> q = Some q' \<and>
         data = (if q = Some STATIC then Some arrays else None))" by blast
  moreover have "ev \<in> set (trace s5) \<longrightarrow> ev \<in> set (trace s4) \<or> ev = Ev_Logger \<or> ev = Ev_Builder \<or>
    ev = Ev_create_network (2 ^ EXPLICIT_BATCH env) \<or> ev = Ev_create_builder_config \<or>
    ev = Ev_set_memory_pool_limit (2 ^ 30)" using b by blast
  moreover have "ev \<in> set (trace s4) \<longrightarrow> ev \<in> set (trace s3) \<or> ev = Ev_import_onnxsim \<or>
    ev = Ev_subprocess_run [''onnxsim'', model, model @ ''_simplified'']" using s by blast
  moreover have "ev \<in> set (trace s3) \<longrightarrow> ev \<in> set (trace s) \<or>
    ev = Ev_check_quantization q ths \<or> ev = Ev_get_split ''train'' \<or>
    ev = Ev_get_numpy_list (QUANTIZATION_DATA_NUM env)" using t by auto
  ultimately show "ev \<in> set (trace s) \<or>
    ev = Ev_check_quantization q ths \<or> ev = Ev_get_split ''train'' \<or>
    ev = Ev_get_numpy_list (QUANTIZATION_DATA_NUM env) \<or> ev = Ev_import_onnxsim \<or>
    ev = Ev_subprocess_run [''onnxsim'', model, model @ ''_simplified''] \<or>
    ev = Ev_Logger \<or> ev = Ev_Builder \<or>
    ev = Ev_create_network (2 ^ EXPLICIT_BATCH env) \<or> ev = Ev_create_builder_config \<or>
    ev = Ev_set_memory_pool_limit (2 ^ 30) \<or>
    (\<exists>q' data. ev = Ev_quantize_tensorrt q' data \<and> q = Some q' \<and>
         data = (if q = Some STATIC then Some arrays else None))" by blast
qed

lemma ONNX_body_events:
  assumes run: "ONNX_execute_body env model mp ths q input_data s = (r, s')"
  shows "set (trace s) \<subseteq> set (trace s') \<and>
     (\<forall>p ok errs. Ev_parse_from_file p ok errs \<in> set (trace s') \<longrightarrow>
        Ev_parse_from_file p ok errs \<in> set (trace s) \<or>
        ((p = model \<or> p = model @ ''_simplified'') \<and>
         (\<not> ok \<longrightarrow>
            r = Inl (ValueError (''Errors occurred while processing the ONNX file at '' @ p)) \<and>
            debug_messages (logged s') = debug_messages (logged s) @ errs \<and>
            (\<forall>n c. Ev_build_serialized_network n c \<in> set (trace s') \<longrightarrow>
               Ev_build_serialized_network n c \<in> set (trace s))))) \<and>
     (\<forall>q' data. Ev_quantize_tensorrt q' data \<in> set (trace s') \<longrightarrow>
        Ev_quantize_tensorrt q' data \<in> set (trace s) \<or>
        (q = Some q' \<and> (data \<noteq> None \<longrightarrow> q = Some STATIC)))"
  using run
proof (cases rule: ONNX_execute_body_cases)
  case (check e)
  then show ?thesis by auto
next
  case (train e)
  from ONNX_train_input_data_spec [OF train(3)] show ?thesis by auto
next
  case (quantize e arrays s3 path s4 network config s5)
  note P = ONNX_before_compile [OF quantize(3) quantize(4) quantize(5) quantize(6)]
  have parse: "\<forall>p ok errs. Ev_parse_from_file p ok errs \<in> set (trace s') \<longrightarrow>
        Ev_parse_from_file p ok errs \<in> set (trace s)"
    using P(2) by fastforce
  have quant: "\<forall>q' data. Ev_quantize_tensorrt q' data \<in> set (trace s') \<longrightarrow>
        Ev_quantize_tensorrt q' data \<in> set (trace s) \<or>
        (q = Some q' \<and> (data \<noteq> None \<longrightarrow> q = Some STATIC))"
  proof (intro allI impI)
    fix q' data assume "Ev_quantize_tensorrt q' data \<in> set (trace s')"
    from P(2) [OF this] show "Ev_quantize_tensorrt q' data \<in> set (trace s) \<or>
        (q = Some q' \<and> (data \<noteq> None \<longrightarrow> q = Some STATIC))"
      by (auto split: if_splits)
  qed
  from P(1) parse quant show ?thesis by blast
next
  case (compile r7 arrays s3 path s4 network config s5 config1 s6 s7)
  note P = ONNX_before_compile [OF compile(2) compile(3) compile(4) compile(5)]
  note C = ONNX_compile_model_spec [OF compile(6)]
  from compile(7) have eq: "trace s' = trace s7" "logged s' = logged s7" by auto
  have mono: "set (trace s) \<subseteq> set (trace s')" using P(1) C eq by auto
  have quant: "\<forall>q' data. Ev_quantize_tensorrt q' data \<in> set (trace s') \<longrightarrow>
        Ev_quantize_tensorrt q' data \<in> set (trace s) \<or>
        (q = Some q' \<and> (data \<noteq> None \<longrightarrow> q = Some STATIC))"
  proof (intro allI impI)
    fix q' data assume "Ev_quantize_tensorrt q' data \<in> set (trace s')"
    with C eq have "Ev_quantize_tensorrt q' data \<in> set (trace s6)" by simp
    from P(2) [OF this] show "Ev_quantize_tensorrt q' data \<in> set (trace s) \<or>
        (q = Some q' \<and> (data \<noteq> None \<longrightarrow> q = Some STATIC))"
      by (auto split: if_splits)
  qed
  have parse: "\<forall>p ok errs. Ev_parse_from_file p ok errs \<in> set (trace s') \<longrightarrow>
        Ev_parse_from_file p ok errs \<in> set (trace s) \<or>
        ((p = model \<or> p = model @ ''_simplified'') \<and>
         (\<not> ok \<longrightarrow>
            r = Inl (ValueError (''Errors occurred while processing the ONNX file at '' @ p)) \<and>
            debug_messages (logged s') = debug_messages (logged s) @ errs \<and>
            (\<forall>n c. Ev_build_serialized_network n c \<in> set (trace s') \<longrightarrow>
               Ev_build_serialized_network n c \<in> set (trace s))))"
  proof (intro allI impI)
    fix p ok errs assume "Ev_parse_from_file p ok errs \<in> set (trace s')"
    then have "Ev_parse_from_file p ok errs \<in> set (trace s7)" using eq by simp
    with C have "Ev_parse_from_file p ok errs \<in> set (trace s6) \<or>
        (p = path \<and> ok = success (parse_from_file env path (files s6)) \<and>
         errs = errors (parse_from_file env path (files s6)))" by blast
    then show "Ev_parse_from_file p ok errs \<in> set (trace s) \<or>
        ((p = model \<or> p = model @ ''_simplified'') \<and>
         (\<not> ok \<longrightarrow>
            r = Inl (ValueError (''Errors occurred while processing the ONNX file at '' @ p)) \<and>
            debug_messages (logged s') = debug_messages (logged s) @ errs \<and>
            (\<forall>n c. Ev_build_serialized_network n c \<in> set (trace s') \<longrightarrow>
               Ev_build_serialized_network n c \<in> set (trace s))))"
    proof
      assume "Ev_parse_from_file p ok errs \<in> set (trace s6)"
      from P(2) [OF this] show ?thesis by simp
    next
      assume a: "p = path \<and> ok = success (parse_from_file env path (files s6)) \<and>
         errs = errors (parse_from_file env path (files s6))"
      have path: "p = model \<or> p = model @ ''_simplified''" using a P(4) by simp
      have fail: "\<not> ok \<longrightarrow>
            r = Inl (ValueError (''Errors occurred while processing the ONNX file at '' @ p)) \<and>
            debug_messages (logged s') = debug_messages (logged s) @ errs \<and>
            (\<forall>n c. Ev_build_serialized_network n c \<in> set (trace s') \<longrightarrow>
               Ev_build_serialized_network n c \<in> set (trace s))"
      proof
        assume "\<not> ok"
        with a have nf: "\<not> success (parse_from_file env path (files s6))" by simp
        with C have r7: "r7 = Inl (ValueError (''Errors occurred while processing the ONNX file at '' @ path))"
          and dbg: "debug_messages (logged s7) = debug_messages (logged s6) @ errors (parse_from_file env path (files s6))"
          by simp_all
        from r7 compile(7) have r: "r = Inl (ValueError (''Errors occurred while processing the ONNX file at '' @ p))"
          and s': "s' = s7" using a by auto
        have d: "debug_messages (logged s') = debug_messages (logged s) @ errs"
          using dbg s' P(3) a by simp
        have b: "\<forall>n c. Ev_build_serialized_network n c \<in> set (trace s') \<longrightarrow>
               Ev_build_serialized_network n c \<in> set (trace s)"
        proof (intro allI impI)
          fix n c assume "Ev_build_serialized_network n c \<in> set (trace s')"
          with s' C nf have "Ev_build_serialized_network n c \<in> set (trace s6)" by blast
          from P(2) [OF this] show "Ev_build_serialized_network n c \<in> set (trace s)" by simp
        qed
        from r d b show "r = Inl (ValueError (''Errors occurred while processing the ONNX file at '' @ p)) \<and>
            debug_messages (logged s') = debug_messages (logged s) @ errs \<and>
            (\<forall>n c. Ev_build_serialized_network n c \<in> set (trace s') \<longrightarrow>
               Ev_build_serialized_network n c \<in> set (trace s))" by blast
      qed
      from path fail show ?thesis by blast
    qed
  qed
  from mono parse quant show ?thesis by blast
qed

lemma ONNX_compile_model_build:
  assumes "ONNX_compile_model env path model_params config network s = (r, s')"
  shows "\<forall>n c. Ev_build_serialized_network n c \<in> set (trace s') \<longrightarrow>
        Ev_build_serialized_network n c \<in> set (trace s) \<or>
        (success (parse_from_file env path (files s)) \<and>
         n = network\<lparr>net_parsed := Some path\<rparr> \<and>
         c = (case dynamic_info model_params of
                None \<Rightarrow> config
              | Some dyn \<Rightarrow> config\<lparr>cfg_profiles := cfg_profiles config @
                  [profile_shapes model_params dyn (get_input_names env path)]\<rparr>))"
  using assms
  by (auto simp: ONNX_compile_model_def Let_def split: option.splits prod.splits if_splits)

lemma ONNX_body_build:
  assumes run: "ONNX_execute_body env model mp ths q input_data s = (r, s')"
    and new: "Ev_build_serialized_network n c \<in> set (trace s')"
    and old: "Ev_build_serialized_network n c \<notin> set (trace s)"
    and dyn: "dynamic_info mp = Some dyn"
  shows "\<exists>path config1. (path = model \<or> path = model @ ''_simplified'') \<and>
      net_parsed n = Some path \<and>
      c = config1\<lparr>cfg_profiles := cfg_profiles config1 @
            [profile_shapes mp dyn (get_input_names env path)]\<rparr> \<and>
      (\<forall>name mn opt mx. (name, mn, opt, mx) \<in> set (profile_shapes mp dyn (get_input_names env path))
          \<longrightarrow> Ev_set_shape name mn opt mx \<in> set (trace s'))"
  using run
proof (cases rule: ONNX_execute_body_cases)
  case (check e)
  with new old show ?thesis by auto
next
  case (train e)
  from ONNX_train_input_data_spec [OF train(3)] new old show ?thesis by auto
next
  case (quantize e arrays s3 path s4 network config s5)
  note P = ONNX_before_compile [OF quantize(3) quantize(4) quantize(5) quantize(6)]
  from P(2) [OF new] old show ?thesis by simp
next
  case (compile r7 arrays s3 path s4 network config s5 config1 s6 s7)
  note P = ONNX_before_compile [OF compile(2) compile(3) compile(4) compile(5)]
  note B = ONNX_compile_model_build [OF compile(6)]
  from compile(7) have eq: "trace s' = trace s7" by auto
  from new eq have n7: "Ev_build_serialized_network n c \<in> set (trace s7)" by simp
  have n6: "Ev_build_serialized_network n c \<notin> set (trace s6)"
  proof
    assume "Ev_build_serialized_network n c \<in> set (trace s6)"
    from P(2) [OF this] old show False by simp
  qed
  from B n7 n6 dyn have ok: "success (parse_from_file env path (files s6))"
    and n: "n = network\<lparr>net_parsed := Some path\<rparr>"
    and c: "c = config1\<lparr>cfg_profiles := cfg_profiles config1 @
            [profile_shapes mp dyn (get_input_names env path)]\<rparr>"
    by auto
  have sh: "\<forall>name mn opt mx. (name, mn, opt, mx) \<in> set (profile_shapes mp dyn (get_input_names env path))
          \<longrightarrow> Ev_set_shape name mn opt mx \<in> set (trace s')"
    using ONNX_compile_model_set_shape [OF compile(6) ok dyn] eq by simp
  from P(4) n c sh show ?thesis by auto
qed

lemma ONNX_execute_new_build:
  assumes "Ev_build_serialized_network n c \<in>
        set (trace (snd (ONNX_execute env device model mp ths q input_data s)))"
    and "Ev_build_serialized_network n c \<notin> set (trace s)"
  shows "ONNX_execute env device model mp ths q input_data s
           = ONNX_execute_body env model mp ths q input_data s"
  using assms by (auto simp add: ONNX_execute_def split: option.splits if_splits)

section \<open>The capability gate decides first\<close>

text \<open>
  Claim C1. When the pair of device and quantization type is not in the support table
  (the list the table holds for the device does not contain the quantization type; the list
  for \<^verbatim>\<open>cpu\<close> is empty, so this covers every call on a cpu device), \<^verbatim>\<open>execute\<close> of
  either strategy returns normally and its only effect is \<^verbatim>\<open>self.compiled_model = None\<close>.
\<close>

theorem execute_unsupported_pair_absent:
  assumes "device = CPU \<or>
           (\<exists>ops. map_of supported_ops (device_value device) = Some ops \<and> quantization_type \<notin> set ops)"
  shows "PyTorch_execute env device model model_params metric_drop_ths quantization_type input_data s
           = (Inr (), s\<lparr>compiled_model := None\<rparr>)
       \<and> ONNX_execute env device path model_params metric_drop_ths quantization_type input_data s
           = (Inr (), s\<lparr>compiled_model := None\<rparr>)"
  using assms by (auto simp: PyTorch_execute_def ONNX_execute_def supported_ops_lookup)

theorem execute_unsupported_pair_absent_witness:
  "(\<exists>ops. map_of supported_ops (device_value GPU) = Some ops \<and> Some DYNAMIC \<notin> set ops)
   \<and> PyTorch_execute backend_ok GPU 0 static_params (Some 1) (Some DYNAMIC) (Some sample_data) fresh_state
       = (Inr (), fresh_state\<lparr>compiled_model := None\<rparr>)
   \<and> ONNX_execute backend_ok GPU ''model.onnx'' static_params (Some 1) (Some DYNAMIC) (Some sample_data) fresh_state
       = (Inr (), fresh_state\<lparr>compiled_model := None\<rparr>)
   \<and> PyTorch_execute backend_ok CPU 0 static_params (Some 1) (Some HALF) (Some sample_data) fresh_state
       = (Inr (), fresh_state\<lparr>compiled_model := None\<rparr>)
   \<and> ONNX_execute backend_ok CPU ''model.onnx'' static_params None None (Some sample_data) fresh_state
       = (Inr (), fresh_state\<lparr>compiled_model := None\<rparr>)"
proof -
  have gpu: "\<exists>ops. map_of supported_ops (device_value GPU) = Some ops \<and> Some DYNAMIC \<notin> set ops"
    by (simp add: supported_ops_gpu)
  then have h: "GPU = CPU \<or>
      (\<exists>ops. map_of supported_ops (device_value GPU) = Some ops \<and> Some DYNAMIC \<notin> set ops)"
    by blast
  show ?thesis
    using gpu
      execute_unsupported_pair_absent [OF h, of backend_ok 0 static_params "Some 1" "Some sample_data" fresh_state "''model.onnx''"]
      execute_unsupported_pair_absent [of CPU "Some HALF" backend_ok 0 static_params "Some 1" "Some sample_data" fresh_state "''model.onnx''"]
      execute_unsupported_pair_absent [of CPU None backend_ok 0 static_params None "Some sample_data" fresh_state "''model.onnx''"]
    by simp
qed

section \<open>What one call produces\<close>

text \<open>
  Claim C2, as amended. A call of \<^verbatim>\<open>execute\<close> ends in exactly one of three ways, told
  apart by the result and the capability gate. It returns with the absent artifact and has made no
  external call (the pair is not supported); or it returns with \<^verbatim>\<open>compiled_model\<close> set to
  the artifact a call of the backend returned (the pair is supported); or it raises, the pair
  being supported, and \<^verbatim>\<open>compiled_model\<close> is what it was before the call: a call that
  raises produces neither an artifact nor an absent result.
\<close>

theorem execute_outcomes:
  assumes ops: "map_of supported_ops (device_value device) = Some ops"
  shows "(case PyTorch_execute env device model model_params metric_drop_ths quantization_type input_data s of
            (r, s') \<Rightarrow>
              (r = Inr () \<and> quantization_type \<notin> set ops \<and> compiled_model s' = None \<and> trace s' = trace s)
            \<or> (r = Inr () \<and> quantization_type \<in> set ops \<and>
                 (\<exists>a args m fs. compiled_model s' = Some a \<and>
                    Ev_torch_tensorrt_compile args \<in> set (trace s') \<and>
                    fst (torch_tensorrt_compile env args m fs) = Inr a))
            \<or> ((\<exists>e. r = Inl e) \<and> quantization_type \<in> set ops \<and> compiled_model s' = compiled_model s))
       \<and> (case ONNX_execute env device path model_params metric_drop_ths quantization_type input_data s of
            (r, s') \<Rightarrow>
              (r = Inr () \<and> quantization_type \<notin> set ops \<and> compiled_model s' = None \<and> trace s' = trace s)
            \<or> (r = Inr () \<and> quantization_type \<in> set ops \<and>
                 (\<exists>a n c. compiled_model s' = Some a \<and>
                    Ev_build_serialized_network n c \<in> set (trace s') \<and>
                    build_serialized_network env n c = Inr a))
            \<or> ((\<exists>e. r = Inl e) \<and> quantization_type \<in> set ops \<and> compiled_model s' = compiled_model s))"
proof (cases "quantization_type \<in> set ops")
  case False
  with ops show ?thesis by (simp add: PyTorch_execute_def ONNX_execute_def)
next
  case True
  show ?thesis
  proof (cases "quantization_type = Some STATIC \<and> input_data = None")
    case True
    with ops \<open>quantization_type \<in> set ops\<close> show ?thesis
      by (simp add: PyTorch_execute_def ONNX_execute_def)
  next
    case False
    obtain rp sp where p: "PyTorch_execute_body env model metric_drop_ths quantization_type input_data s = (rp, sp)"
      by (cases "PyTorch_execute_body env model metric_drop_ths quantization_type input_data s")
    obtain ro so where o: "ONNX_execute_body env path model_params metric_drop_ths quantization_type input_data s = (ro, so)"
      by (cases "ONNX_execute_body env path model_params metric_drop_ths quantization_type input_data s")
    from ops True False p have pe: "PyTorch_execute env device model model_params metric_drop_ths quantization_type input_data s = (rp, sp)"
      by (auto simp add: PyTorch_execute_def)
    from ops True False o have oe: "ONNX_execute env device path model_params metric_drop_ths quantization_type input_data s = (ro, so)"
      by (auto simp add: ONNX_execute_def)
    have "(rp = Inr () \<and> (\<exists>a args m fs. compiled_model sp = Some a \<and>
                    Ev_torch_tensorrt_compile args \<in> set (trace sp) \<and>
                    fst (torch_tensorrt_compile env args m fs) = Inr a))
          \<or> ((\<exists>e. rp = Inl e) \<and> compiled_model sp = compiled_model s)"
      using PyTorch_body_result [OF p] by (cases rp) auto
    moreover have "(ro = Inr () \<and> (\<exists>a n c. compiled_model so = Some a \<and>
                    Ev_build_serialized_network n c \<in> set (trace so) \<and>
                    build_serialized_network env n c = Inr a))
          \<or> ((\<exists>e. ro = Inl e) \<and> compiled_model so = compiled_model s)"
      using ONNX_body_result [OF o] by (cases ro) auto
    ultimately show ?thesis using True unfolding pe oe by simp
  qed
qed

theorem execute_outcomes_witness:
  "map_of supported_ops (device_value GPU) = Some [None, Some STATIC, Some HALF]
   \<and> fst (PyTorch_execute backend_ok GPU 0 static_params (Some 1) (Some HALF) (Some sample_data) fresh_state) = Inr ()
   \<and> compiled_model (snd (PyTorch_execute backend_ok GPU 0 static_params (Some 1) (Some HALF) (Some sample_data) fresh_state)) = Some 7
   \<and> fst (ONNX_execute backend_ok GPU ''model.onnx'' static_params (Some 1) (Some HALF) (Some sample_data) fresh_state) = Inr ()
   \<and> compiled_model (snd (ONNX_execute backend_ok GPU ''model.onnx'' static_params (Some 1) (Some HALF) (Some sample_data) fresh_state)) = Some 11"
proof -
  have h: "map_of supported_ops (device_value GPU) = Some [None, Some STATIC, Some HALF]"
    by (simp add: supported_ops_gpu)
  show ?thesis
    using h execute_outcomes [OF h, where env = backend_ok and model = 0 and model_params = static_params
        and metric_drop_ths = "Some 1" and quantization_type = "Some HALF"
        and input_data = "Some sample_data" and s = fresh_state and path = "''model.onnx''"]
    by (simp add: PyTorch_defs ONNX_defs run_defs)
qed

text \<open>
  As the claim states it (also a call that raises produces an artifact or an absent result)
  it fails. The first call below raises at the data check and leaves the whole state as it
  was. The second starts from a compiler object that still holds the artifact 3 of an
  earlier call; its one call of the backend raises, so it produces no artifact, and it
  assigns nothing: \<^verbatim>\<open>compiled_model\<close> is still the old value, not the absent one.
\<close>

theorem execute_raising_produces_nothing:
  "PyTorch_execute backend_ok GPU 0 static_params (Some 1) (Some STATIC) None fresh_state
     = (Inl (ValueError ''Input data is required for static quantization.''), fresh_state)
   \<and> fst (PyTorch_execute backend_compile_raises GPU 0 static_params None None (Some sample_data)
            (fresh_state\<lparr>compiled_model := Some 3\<rparr>))
     = Inl (ExternalError ''out of memory'')
   \<and> compiled_model (snd (PyTorch_execute backend_compile_raises GPU 0 static_params None None
            (Some sample_data) (fresh_state\<lparr>compiled_model := Some 3\<rparr>)))
     = Some 3"
  by (simp add: PyTorch_defs run_defs)

section \<open>The calibration cache\<close>

text \<open>
  Claim C3, as amended. A call of \<^verbatim>\<open>execute\<close> of the native-graph strategy with static
  quantization that returns without raising leaves no file \<^verbatim>\<open>calibration.cache\<close>, when the
  file did not exist before the call or the device is a gpu (then \<^verbatim>\<open>_compile_model\<close> ran
  to its end, where the file is removed).
\<close>

theorem calibration_cache_removed_on_return:
  assumes ret: "fst (PyTorch_execute env device model model_params metric_drop_ths (Some STATIC) input_data s) = Inr ()"
    and pre: "''calibration.cache'' \<notin> files s \<or> device = GPU"
  shows "''calibration.cache'' \<notin>
           files (snd (PyTorch_execute env device model model_params metric_drop_ths (Some STATIC) input_data s))"
proof (cases device)
  case CPU
  with pre show ?thesis by (simp add: PyTorch_execute_def supported_ops_cpu)
next
  case GPU
  show ?thesis
  proof (cases input_data)
    case None
    with GPU ret show ?thesis by (simp add: PyTorch_execute_def supported_ops_gpu)
  next
    case (Some d)
    obtain r s' where b: "PyTorch_execute_body env model metric_drop_ths (Some STATIC) input_data s = (r, s')"
      by (cases "PyTorch_execute_body env model metric_drop_ths (Some STATIC) input_data s")
    with GPU Some have e: "PyTorch_execute env device model model_params metric_drop_ths (Some STATIC) input_data s = (r, s')"
      by (simp add: PyTorch_execute_def supported_ops_gpu)
    with ret have "r = Inr ()" by simp
    with PyTorch_body_result [OF b] show ?thesis unfolding e by simp
  qed
qed

theorem calibration_cache_removed_on_return_witness:
  "fst (PyTorch_execute backend_ok GPU 0 static_params (Some 1) (Some STATIC) (Some sample_data) fresh_state) = Inr ()
   \<and> ''calibration.cache'' \<notin> files fresh_state
   \<and> ''calibration.cache'' \<notin>
       files (snd (PyTorch_execute backend_ok GPU 0 static_params (Some 1) (Some STATIC) (Some sample_data) fresh_state))"
proof -
  have ret: "fst (PyTorch_execute backend_ok GPU 0 static_params (Some 1) (Some STATIC) (Some sample_data) fresh_state) = Inr ()"
    by (simp add: PyTorch_defs run_defs)
  have pre: "''calibration.cache'' \<notin> files fresh_state \<or> GPU = GPU" by simp
  have "''calibration.cache'' \<notin> files fresh_state" by (simp add: fresh_state_def)
  with ret calibration_cache_removed_on_return [OF ret pre] show ?thesis by simp
qed

text \<open>
  As the claim states it (also on every failure path) it fails: the removal stands after the
  call of \<^verbatim>\<open>torch_tensorrt.compile\<close>, outside any \<^verbatim>\<open>finally\<close>, so when that call writes
  the cache and raises, the file stays.
\<close>

theorem calibration_cache_left_when_compile_raises:
  "fst (PyTorch_execute backend_compile_raises GPU 0 static_params (Some 1) (Some STATIC) (Some sample_data) fresh_state)
     = Inl (ExternalError ''out of memory'')
   \<and> ''calibration.cache'' \<notin> files fresh_state
   \<and> ''calibration.cache'' \<in>
       files (snd (PyTorch_execute backend_compile_raises GPU 0 static_params (Some 1) (Some STATIC) (Some sample_data) fresh_state))"
  by (simp add: PyTorch_defs run_defs)

section \<open>Static quantization needs sample data\<close>

text \<open>
  Claim C4, as amended. On a device whose support list contains static quantization (the capability gate
  is passed, which the table allows on gpu only), \<^verbatim>\<open>execute\<close> of either strategy with
  static quantization and no sample data raises the \<^verbatim>\<open>ValueError\<close> of line 89 (line 235),
  and the state is exactly the state before the call: nothing was logged, no external call
  was made, so no builder, network or parser object exists.
\<close>

theorem execute_static_without_data_raises:
  assumes "map_of supported_ops (device_value device) = Some ops" and "Some STATIC \<in> set ops"
  shows "PyTorch_execute env device model model_params metric_drop_ths (Some STATIC) None s
           = (Inl (ValueError ''Input data is required for static quantization.''), s)
       \<and> ONNX_execute env device path model_params metric_drop_ths (Some STATIC) None s
           = (Inl (ValueError ''Input data is required for static quantization.''), s)"
  using assms by (simp add: PyTorch_execute_def ONNX_execute_def)

theorem execute_static_without_data_raises_witness:
  "map_of supported_ops (device_value GPU) = Some [None, Some STATIC, Some HALF]
   \<and> Some STATIC \<in> set [None, Some STATIC, Some HALF]
   \<and> PyTorch_execute backend_ok GPU 0 static_params (Some 1) (Some STATIC) None fresh_state
       = (Inl (ValueError ''Input data is required for static quantization.''), fresh_state)
   \<and> ONNX_execute backend_ok GPU ''model.onnx'' static_params (Some 1) (Some STATIC) None fresh_state
       = (Inl (ValueError ''Input data is required for static quantization.''), fresh_state)"
proof -
  have h1: "map_of supported_ops (device_value GPU) = Some [None, Some STATIC, Some HALF]"
    by (simp add: supported_ops_gpu)
  have h2: "Some STATIC \<in> set [None, Some STATIC, Some HALF]" by simp
  show ?thesis
    using h1 h2 execute_static_without_data_raises [OF h1 h2, of backend_ok 0 static_params "Some 1" fresh_state "''model.onnx''"]
    by simp
qed

text \<open>
  As the claim states it (every call with static quantization and no data raises) it fails
  on a cpu device: the capability gate comes first, and the call returns normally with no artifact.
\<close>

theorem execute_static_without_data_on_cpu_returns:
  "fst (PyTorch_execute backend_ok CPU 0 static_params (Some 1) (Some STATIC) None fresh_state) = Inr ()
   \<and> fst (ONNX_execute backend_ok CPU ''model.onnx'' static_params (Some 1) (Some STATIC) None fresh_state) = Inr ()"
  by (simp add: PyTorch_execute_def ONNX_execute_def supported_ops_cpu)

section \<open>The optimization profile\<close>

lemma min_shape_length: "length (min_shape bs d info) = Suc (length (info_size info))"
  by (simp add: min_shape_def)

lemma min_shape_batch: "min_shape bs d info ! 0 = (if 0 \<in> d then min bs 1 else bs)"
  by (simp add: min_shape_def)

lemma min_shape_dim:
  assumes "1 \<le> k" and "k \<le> length (info_size info)"
  shows "min_shape bs d info ! k =
           (if int k \<in> d
            then (case min_sizes info of
                    None \<Rightarrow> 1
                  | Some m \<Rightarrow> (case m (int k) of None \<Rightarrow> 1 | Some b \<Rightarrow> b))
            else info_size info ! (k - 1))"
proof -
  from assms obtain i where k: "k = Suc i" and i: "i < length (info_size info)"
    by (cases k) auto
  show ?thesis
    using i k
    by (simp add: min_shape_def min_size_bound_def nth_enumerate_eq add.commute split: option.splits)
qed

lemma profile_shapes_nth:
  assumes "j < length names" and "j < length (inputs dyn)" and "j < length (input_infos model_params)"
  shows "case profile_shapes model_params dyn names ! j of
           (name, mn, opt, mx) \<Rightarrow>
             name = names ! j \<and>
             length mn = Suc (length (info_size (input_infos model_params ! j))) \<and>
             mn ! 0 = (if 0 \<in> inputs dyn ! j then min (batch_size model_params) 1
                       else batch_size model_params) \<and>
             (\<forall>k. 1 \<le> k \<and> k \<le> length (info_size (input_infos model_params ! j)) \<longrightarrow>
                mn ! k =
                  (if int k \<in> inputs dyn ! j
                   then (case min_sizes (input_infos model_params ! j) of
                           None \<Rightarrow> 1
                         | Some m \<Rightarrow> (case m (int k) of None \<Rightarrow> 1 | Some b \<Rightarrow> b))
                   else info_size (input_infos model_params ! j) ! (k - 1))) \<and>
             opt = batch_size model_params # info_size (input_infos model_params ! j) \<and>
             mx = batch_size model_params # info_size (input_infos model_params ! j)"
  using assms
  by (simp add: profile_shapes_def min_shape_length min_shape_batch min_shape_dim)

lemma profile_shapes_length:
  "length (profile_shapes model_params dyn names) =
     min (length names) (min (length (inputs dyn)) (length (input_infos model_params)))"
  by (simp add: profile_shapes_def)

lemma dynamic_run_trace:
  "trace (snd (ONNX_execute backend_ok GPU ''model.onnx'' dynamic_params None None (Some sample_data) fresh_state))
     = [Ev_check_quantization None None, Ev_get_split ''train'', Ev_get_numpy_list 300,
        Ev_import_onnxsim,
        Ev_subprocess_run [''onnxsim'', ''model.onnx'', ''model.onnx_simplified''],
        Ev_Logger, Ev_Builder, Ev_create_network 1, Ev_create_builder_config,
        Ev_set_memory_pool_limit (2 ^ 30), Ev_OnnxParser,
        Ev_parse_from_file ''model.onnx_simplified'' True [],
        Ev_set_shape ''input_0'' [1, 3, 32, 224] [8, 3, 224, 224] [8, 3, 224, 224],
        Ev_add_optimization_profile,
        Ev_build_serialized_network built_network built_config]"
  by (simp add: ONNX_defs run_defs built_network_def built_config_def profile_shapes_def min_shape_def
        min_size_bound_def enumerate_eq_zip)

text \<open>
  Claim C5, as amended. Whenever a call of \<^verbatim>\<open>execute\<close> of the interchange-format strategy,
  on a model with dynamic shape information, reaches the build of the engine (a call of
  \<^verbatim>\<open>builder.build_serialized_network\<close> is new in the trace), the graph file that was
  parsed is the model file or its simplified sibling, and the configuration the builder
  receives carries, as its last optimization profile, one triple for each position of the
  zip of the input names of the graph file, the entries of the dynamic shape information and
  the declared inputs: as many triples as the shortest of the three lists has entries, so
  one per declared input when the three lists have the same length. Each triple was passed
  to \<^verbatim>\<open>profile.set_shape\<close> under the name of the graph input at that position. In the
  triple at position \<open>j\<close> the minimum shape has one entry more than the declared size; its
  entry 0 is \<open>min batch_size 1\<close> when dimension 0 is dynamic and the batch size otherwise;
  its entry \<open>k\<close> (from 1 on) is the minimum bound declared for dimension \<open>k\<close>, 1 when none
  is declared, when dimension \<open>k\<close> is dynamic, and the declared size of that dimension
  otherwise; the optimal and the maximum shape are the batch size followed by the declared
  sizes. The witness is the example of the claim.
\<close>

theorem optimization_profile_built:
  assumes new: "Ev_build_serialized_network net cfg \<in>
        set (trace (snd (ONNX_execute env device model model_params metric_drop_ths quantization_type input_data s)))"
    and old: "Ev_build_serialized_network net cfg \<notin> set (trace s)"
    and dyn: "dynamic_info model_params = Some dyn"
  shows "\<exists>path prof. (path = model \<or> path = model @ ''_simplified'') \<and>
      net_parsed net = Some path \<and>
      cfg_profiles cfg \<noteq> [] \<and> last (cfg_profiles cfg) = prof \<and>
      length prof = min (length (get_input_names env path))
                        (min (length (inputs dyn)) (length (input_infos model_params))) \<and>
      (\<forall>j < length prof.
         case prof ! j of
           (name, mn, opt, mx) \<Rightarrow>
             Ev_set_shape name mn opt mx \<in>
               set (trace (snd (ONNX_execute env device model model_params metric_drop_ths quantization_type input_data s))) \<and>
             name = get_input_names env path ! j \<and>
             length mn = Suc (length (info_size (input_infos model_params ! j))) \<and>
             mn ! 0 = (if 0 \<in> inputs dyn ! j then min (batch_size model_params) 1
                       else batch_size model_params) \<and>
             (\<forall>k. 1 \<le> k \<and> k \<le> length (info_size (input_infos model_params ! j)) \<longrightarrow>
                mn ! k =
                  (if int k \<in> inputs dyn ! j
                   then (case min_sizes (input_infos model_params ! j) of
                           None \<Rightarrow> 1
                         | Some m \<Rightarrow> (case m (int k) of None \<Rightarrow> 1 | Some b \<Rightarrow> b))
                   else info_size (input_infos model_params ! j) ! (k - 1))) \<and>
             opt = batch_size model_params # info_size (input_infos model_params ! j) \<and>
             mx = batch_size model_params # info_size (input_infos model_params ! j))"
proof -
  let ?run = "ONNX_execute env device model model_params metric_drop_ths quantization_type input_data s"
  obtain r s' where b: "ONNX_execute_body env model model_params metric_drop_ths quantization_type input_data s = (r, s')"
    by (cases "ONNX_execute_body env model model_params metric_drop_ths quantization_type input_data s")
  have e: "?run = (r, s')"
    using ONNX_execute_new_build [OF new old] b by simp
  from new have n': "Ev_build_serialized_network net cfg \<in> set (trace s')" unfolding e by simp
  from ONNX_body_build [OF b n' old dyn] obtain path config1
    where p: "path = model \<or> path = model @ ''_simplified''"
      and np: "net_parsed net = Some path"
      and c: "cfg = config1\<lparr>cfg_profiles := cfg_profiles config1 @
            [profile_shapes model_params dyn (get_input_names env path)]\<rparr>"
      and sh: "\<forall>name mn opt mx. (name, mn, opt, mx) \<in> set (profile_shapes model_params dyn (get_input_names env path))
          \<longrightarrow> Ev_set_shape name mn opt mx \<in> set (trace s')"
    by blast
  let ?prof = "profile_shapes model_params dyn (get_input_names env path)"
  have ne: "cfg_profiles cfg \<noteq> []" and la: "last (cfg_profiles cfg) = ?prof"
    using c by simp_all
  have len: "length ?prof = min (length (get_input_names env path))
                        (min (length (inputs dyn)) (length (input_infos model_params)))"
    by (rule profile_shapes_length)
  have each: "\<forall>j < length ?prof.
         case ?prof ! j of
           (name, mn, opt, mx) \<Rightarrow>
             Ev_set_shape name mn opt mx \<in> set (trace (snd ?run)) \<and>
             name = get_input_names env path ! j \<and>
             length mn = Suc (length (info_size (input_infos model_params ! j))) \<and>
             mn ! 0 = (if 0 \<in> inputs dyn ! j then min (batch_size model_params) 1
                       else batch_size model_params) \<and>
             (\<forall>k. 1 \<le> k \<and> k \<le> length (info_size (input_infos model_params ! j)) \<longrightarrow>
                mn ! k =
                  (if int k \<in> inputs dyn ! j
                   then (case min_sizes (input_infos model_params ! j) of
                           None \<Rightarrow> 1
                         | Some m \<Rightarrow> (case m (int k) of None \<Rightarrow> 1 | Some b \<Rightarrow> b))
                   else info_size (input_infos model_params ! j) ! (k - 1))) \<and>
             opt = batch_size model_params # info_size (input_infos model_params ! j) \<and>
             mx = batch_size model_params # info_size (input_infos model_params ! j)"
  proof (intro allI impI)
    fix j assume j: "j < length ?prof"
    with len have j1: "j < length (get_input_names env path)" and j2: "j < length (inputs dyn)"
      and j3: "j < length (input_infos model_params)" by simp_all
    obtain name mn opt mx where t: "?prof ! j = (name, mn, opt, mx)" by (cases "?prof ! j")
    from j t have "(name, mn, opt, mx) \<in> set ?prof" by (metis nth_mem)
    with sh have ev: "Ev_set_shape name mn opt mx \<in> set (trace (snd ?run))" unfolding e by simp
    from profile_shapes_nth [OF j1 j2 j3] t ev
    show "case ?prof ! j of
           (name, mn, opt, mx) \<Rightarrow>
             Ev_set_shape name mn opt mx \<in> set (trace (snd ?run)) \<and>
             name = get_input_names env path ! j \<and>
             length mn = Suc (length (info_size (input_infos model_params ! j))) \<and>
             mn ! 0 = (if 0 \<in> inputs dyn ! j then min (batch_size model_params) 1
                       else batch_size model_params) \<and>
             (\<forall>k. 1 \<le> k \<and> k \<le> length (info_size (input_infos model_params ! j)) \<longrightarrow>
                mn ! k =
                  (if int k \<in> inputs dyn ! j
                   then (case min_sizes (input_infos model_params ! j) of
                           None \<Rightarrow> 1
                         | Some m \<Rightarrow> (case m (int k) of None \<Rightarrow> 1 | Some b \<Rightarrow> b))
                   else info_size (input_infos model_params ! j) ! (k - 1))) \<and>
             opt = batch_size model_params # info_size (input_infos model_params ! j) \<and>
             mx = batch_size model_params # info_size (input_infos model_params ! j)"
      by simp
  qed
  from p np ne la len each show ?thesis by blast
qed

theorem optimization_profile_built_witness:
  "Ev_build_serialized_network built_network built_config \<in>
      set (trace (snd (ONNX_execute backend_ok GPU ''model.onnx'' dynamic_params None None (Some sample_data) fresh_state)))
   \<and> Ev_build_serialized_network built_network built_config \<notin> set (trace fresh_state)
   \<and> dynamic_info dynamic_params = Some dynamic_axes
   \<and> batch_size dynamic_params = 8
   \<and> info_size (input_infos dynamic_params ! 0) = [3, 224, 224]
   \<and> inputs dynamic_axes ! 0 = {0, 2}
   \<and> net_parsed built_network = Some ''model.onnx_simplified''
   \<and> last (cfg_profiles built_config)
       = [(''input_0'', [1, 3, 32, 224], [8, 3, 224, 224], [8, 3, 224, 224])]
   \<and> Ev_set_shape ''input_0'' [1, 3, 32, 224] [8, 3, 224, 224] [8, 3, 224, 224] \<in>
      set (trace (snd (ONNX_execute backend_ok GPU ''model.onnx'' dynamic_params None None (Some sample_data) fresh_state)))"
proof -
  have new: "Ev_build_serialized_network built_network built_config \<in>
      set (trace (snd (ONNX_execute backend_ok GPU ''model.onnx'' dynamic_params None None (Some sample_data) fresh_state)))"
    by (simp add: dynamic_run_trace)
  have old: "Ev_build_serialized_network built_network built_config \<notin> set (trace fresh_state)"
    by (simp add: fresh_state_def)
  have dyn: "dynamic_info dynamic_params = Some dynamic_axes"
    by (simp add: dynamic_params_def)
  have shape: "batch_size dynamic_params = 8
      \<and> info_size (input_infos dynamic_params ! 0) = [3, 224, 224]
      \<and> inputs dynamic_axes ! 0 = {0, 2}
      \<and> net_parsed built_network = Some ''model.onnx_simplified''
      \<and> last (cfg_profiles built_config)
          = [(''input_0'', [1, 3, 32, 224], [8, 3, 224, 224], [8, 3, 224, 224])]"
    by (simp add: dynamic_params_def dynamic_axes_def built_network_def built_config_def)
  have call: "Ev_set_shape ''input_0'' [1, 3, 32, 224] [8, 3, 224, 224] [8, 3, 224, 224] \<in>
      set (trace (snd (ONNX_execute backend_ok GPU ''model.onnx'' dynamic_params None None (Some sample_data) fresh_state)))"
    by (simp add: dynamic_run_trace)
  from optimization_profile_built [OF new old dyn] new old dyn shape call show ?thesis
    by blast
qed

text \<open>
  As the claim states it, it fails: the triples are built over
  \<^verbatim>\<open>zip(get_input_names(path), dynamic_info.inputs, input_infos)\<close>, which stops at the
  shortest list. Below the graph file and the parameters both declare two inputs, the dynamic
  shape information has an entry for the first one only, and \<^verbatim>\<open>profile.set_shape\<close> is
  called once: the second declared input gets no triple.
\<close>

theorem profile_skips_inputs_beyond_shortest_list:
  "length (input_infos two_input_params) = 2
   \<and> get_input_names backend_two_inputs ''model.onnx_simplified'' = [''input_0'', ''input_1'']
   \<and> dynamic_info two_input_params = Some \<lparr>inputs = [{0}]\<rparr>
   \<and> filter is_set_shape
        (trace (snd (ONNX_execute backend_two_inputs GPU ''model.onnx'' two_input_params None None
                       (Some sample_data) fresh_state)))
       = [Ev_set_shape ''input_0'' [1, 3, 224, 224] [8, 3, 224, 224] [8, 3, 224, 224]]"
  by (simp add: ONNX_defs run_defs backend_two_inputs_def two_input_params_def profile_shapes_def
        min_shape_def min_size_bound_def enumerate_eq_zip)

section \<open>A parse failure\<close>

text \<open>
  Claim C6. When a call of \<^verbatim>\<open>execute\<close> of the interchange-format strategy asks the
  backend parser for a file and the parser reports failure (the call
  \<^verbatim>\<open>parse_from_file\<close> with result \<^verbatim>\<open>False\<close> and error list \<open>errs\<close> is new in the trace),
  then \<^verbatim>\<open>execute\<close> raises the \<^verbatim>\<open>ValueError\<close> whose message ends with the path of that
  file; the file is the chosen graph file (the model path or its simplified sibling); the
  debug messages the call logged are exactly the parser's errors, all of them and in their
  order (two in the witness); and no artifact is produced: \<^verbatim>\<open>compiled_model\<close> and
  \<^verbatim>\<open>model_orig\<close> keep their values and the builder is never asked to build.
\<close>

theorem parse_failure_raises:
  assumes new: "Ev_parse_from_file p False errs \<in>
        set (trace (snd (ONNX_execute env device model model_params metric_drop_ths quantization_type input_data s)))"
    and old: "Ev_parse_from_file p False errs \<notin> set (trace s)"
  shows "fst (ONNX_execute env device model model_params metric_drop_ths quantization_type input_data s)
           = Inl (ValueError (''Errors occurred while processing the ONNX file at '' @ p))
       \<and> (p = model \<or> p = model @ ''_simplified'')
       \<and> debug_messages (logged (snd (ONNX_execute env device model model_params metric_drop_ths quantization_type input_data s)))
           = debug_messages (logged s) @ errs
       \<and> compiled_model (snd (ONNX_execute env device model model_params metric_drop_ths quantization_type input_data s))
           = compiled_model s
       \<and> model_orig (snd (ONNX_execute env device model model_params metric_drop_ths quantization_type input_data s))
           = model_orig s
       \<and> (\<forall>n c. Ev_build_serialized_network n c \<in>
              set (trace (snd (ONNX_execute env device model model_params metric_drop_ths quantization_type input_data s)))
            \<longrightarrow> Ev_build_serialized_network n c \<in> set (trace s))"
proof -
  obtain r s' where b: "ONNX_execute_body env model model_params metric_drop_ths quantization_type input_data s = (r, s')"
    by (cases "ONNX_execute_body env model model_params metric_drop_ths quantization_type input_data s")
  have e: "ONNX_execute env device model model_params metric_drop_ths quantization_type input_data s = (r, s')"
  proof (rule ccontr)
    assume "ONNX_execute env device model model_params metric_drop_ths quantization_type input_data s \<noteq> (r, s')"
    with b have "trace (snd (ONNX_execute env device model model_params metric_drop_ths quantization_type input_data s)) = trace s"
      by (auto simp: ONNX_execute_def supported_ops_lookup split: if_splits)
    with new old show False by simp
  qed
  from new have n: "Ev_parse_from_file p False errs \<in> set (trace s')" unfolding e by simp
  note E = ONNX_body_events [OF b]
  note R = ONNX_body_result [OF b]
  from E n old have
    "(p = model \<or> p = model @ ''_simplified'') \<and>
       r = Inl (ValueError (''Errors occurred while processing the ONNX file at '' @ p)) \<and>
       debug_messages (logged s') = debug_messages (logged s) @ errs \<and>
       (\<forall>n c. Ev_build_serialized_network n c \<in> set (trace s') \<longrightarrow>
          Ev_build_serialized_network n c \<in> set (trace s))"
    by blast
  with R show ?thesis unfolding e by simp
qed

theorem parse_failure_raises_witness:
  "Ev_parse_from_file ''model.onnx_simplified'' False [''bad node'', ''unsupported operator''] \<in>
      set (trace (snd (ONNX_execute backend_parse_fails GPU ''model.onnx'' static_params None None (Some sample_data) fresh_state)))
   \<and> Ev_parse_from_file ''model.onnx_simplified'' False [''bad node'', ''unsupported operator''] \<notin> set (trace fresh_state)
   \<and> fst (ONNX_execute backend_parse_fails GPU ''model.onnx'' static_params None None (Some sample_data) fresh_state)
       = Inl (ValueError ''Errors occurred while processing the ONNX file at model.onnx_simplified'')
   \<and> debug_messages (logged (snd (ONNX_execute backend_parse_fails GPU ''model.onnx'' static_params None None (Some sample_data) fresh_state)))
       = [''bad node'', ''unsupported operator'']
   \<and> compiled_model (snd (ONNX_execute backend_parse_fails GPU ''model.onnx'' static_params None None (Some sample_data) fresh_state))
       = None"
proof -
  have new: "Ev_parse_from_file ''model.onnx_simplified'' False [''bad node'', ''unsupported operator''] \<in>
      set (trace (snd (ONNX_execute backend_parse_fails GPU ''model.onnx'' static_params None None (Some sample_data) fresh_state)))"
    by (simp add: ONNX_defs run_defs)
  have old: "Ev_parse_from_file ''model.onnx_simplified'' False [''bad node'', ''unsupported operator''] \<notin> set (trace fresh_state)"
    by (simp add: fresh_state_def)
  have l: "logged fresh_state = []" and c: "compiled_model fresh_state = None"
    by (simp_all add: fresh_state_def)
  from new old parse_failure_raises [OF new old] l c show ?thesis by simp
qed

section \<open>Half precision\<close>




section \<open>The simplification pre-pass\<close>

text \<open>
  The two failures the \<^verbatim>\<open>except Exception\<close> clause catches fall back to the original
  file; a simplifier that returns, with whatever exit status, makes the sibling path the
  chosen one.
\<close>

lemma ONNX_simplify_import_fails:
  "import_onnxsim env = Some e \<Longrightarrow> fst (ONNX_simplify env model s) = model"
  by (simp add: ONNX_simplify_def Let_def)

lemma ONNX_simplify_run_raises:
  "model @ ''_simplified'' \<notin> files s \<Longrightarrow> fst (subprocess_run env [''onnxsim'', model, model @ ''_simplified'']
         (files s)) = Inl e \<Longrightarrow> fst (ONNX_simplify env model s) = model"
  by (auto simp: ONNX_simplify_def Let_def split: option.splits prod.splits sum.splits)

lemma ONNX_simplify_run_returns:
  "import_onnxsim env = None \<Longrightarrow> model @ ''_simplified'' \<notin> files s \<Longrightarrow>
   fst (subprocess_run env [''onnxsim'', model, model @ ''_simplified''] (files s)) = Inr status \<Longrightarrow>
   fst (ONNX_simplify env model s) = model @ ''_simplified''"
  by (auto simp: ONNX_simplify_def Let_def split: option.splits prod.splits sum.splits)

text \<open>
  Claim C8 (the code falls short of it). The simplifier exits with status 1 and writes no
  file; \<^verbatim>\<open>subprocess.run\<close> returns that status without raising, so \<^verbatim>\<open>onnx_model_path\<close>
  becomes the sibling path, which does not exist. The parser fails on it and \<^verbatim>\<open>execute\<close>
  raises, although the original file parses: the original file is never given to the
  parser and no artifact is produced.
\<close>

theorem simplifier_nonzero_exit_is_fatal:
  "fst (subprocess_run backend_simplifier_exits_nonzero
          [''onnxsim'', ''model.onnx'', ''model.onnx_simplified''] {''model.onnx''}) = Inr 1
   \<and> success (parse_from_file backend_simplifier_exits_nonzero ''model.onnx'' {''model.onnx''})
   \<and> fst (ONNX_execute backend_simplifier_exits_nonzero GPU ''model.onnx'' static_params None None
            (Some sample_data) fresh_state)
       = Inl (ValueError ''Errors occurred while processing the ONNX file at model.onnx_simplified'')
   \<and> compiled_model (snd (ONNX_execute backend_simplifier_exits_nonzero GPU ''model.onnx'' static_params None None
            (Some sample_data) fresh_state)) = None
   \<and> Ev_parse_from_file ''model.onnx'' True [] \<notin>
       set (trace (snd (ONNX_execute backend_simplifier_exits_nonzero GPU ''model.onnx'' static_params None None
            (Some sample_data) fresh_state)))"
  by (simp add: ONNX_defs run_defs)

section \<open>The input tensors of the native-graph strategy\<close>

lemma convert_tensor_dtype:
  "t_dtype (convert_tensor t) = (if t_dtype t = Int64 then Int32 else t_dtype t)"
  by (simp add: convert_tensor_def cuda_def to_dtype_def)

lemma convert_tensor_shape: "t_shape (convert_tensor t) = t_shape t"
  by (simp add: convert_tensor_def cuda_def to_dtype_def)

lemma input_spec_int64:
  "t_dtype t = Int64 \<Longrightarrow> input_spec dtype (convert_tensor t) = (t_shape t, Int32)"
  by (simp add: input_spec_def convert_tensor_dtype convert_tensor_shape)

lemma half_run_trace:
  "trace (snd (PyTorch_execute backend_ok GPU 0 static_params (Some 1) (Some HALF) (Some sample_data) fresh_state))
     = [Ev_check_quantization (Some HALF) (Some 1), Ev_get_list 1, Ev_jit_script 0,
        Ev_deepcopy_half 0 1, Ev_torch_tensorrt_compile half_compile_args]"
  by (simp add: PyTorch_defs run_defs half_compile_args_def input_spec_def convert_tensor_def
        cuda_def to_dtype_def token_ids_def pixels_def)

lemma input_spec_other:
  "t_dtype t \<noteq> Int64 \<Longrightarrow>
     input_spec dtype (convert_tensor t)
       = (t_shape t, if dtype = Float16 \<and> t_dtype t \<notin> {Int8, Int32} then Float16 else t_dtype t)"
  by (simp add: input_spec_def convert_tensor_dtype convert_tensor_shape)

lemma plain_run_trace:
  "trace (snd (PyTorch_execute backend_ok GPU 0 static_params (Some 1) None (Some sample_data) fresh_state))
     = [Ev_check_quantization None (Some 1), Ev_get_list 1, Ev_jit_script 0,
        Ev_torch_tensorrt_compile plain_compile_args]"
  by (simp add: PyTorch_defs run_defs plain_compile_args_def input_spec_def convert_tensor_def
        cuda_def to_dtype_def token_ids_def pixels_def)

text \<open>
  Claim C9, as amended. Whenever a call of \<^verbatim>\<open>execute\<close> of the native-graph strategy reaches
  the compilation (a call of \<^verbatim>\<open>torch_tensorrt.compile\<close> is new in the trace), whatever the
  quantization type, the sample data source was given and its first sample \<open>batch\<close> was
  read; the compilation step works on the converted tensors \<open>map convert_tensor batch\<close> (a
  new call of \<^verbatim>\<open>torch.jit.trace\<close> gets exactly them, and the backend gets one input
  specification per tensor); a tensor of dtype 64-bit integer is converted to a 32-bit
  integer tensor and declared to the backend with its shape and the dtype 32-bit integer;
  a tensor of any other dtype keeps its dtype in the conversion, and is declared to the
  backend with its shape and its own dtype, except under half precision, where it is
  declared as 16-bit float unless its dtype is 8-bit or 32-bit integer.
\<close>

theorem inputs_presented_to_backend:
  assumes new: "Ev_torch_tensorrt_compile args \<in>
        set (trace (snd (PyTorch_execute env device model model_params metric_drop_ths quantization_type input_data s)))"
    and old: "Ev_torch_tensorrt_compile args \<notin> set (trace s)"
  shows "\<exists>d batch rest. input_data = Some d \<and> get_list d 1 = Inr (batch # rest) \<and>
           length (ca_inputs args) = length batch \<and>
           (\<forall>i < length batch.
              (t_dtype (batch ! i) = Int64 \<longrightarrow>
                 t_dtype (convert_tensor (batch ! i)) = Int32 \<and>
                 ca_inputs args ! i = (t_shape (batch ! i), Int32)) \<and>
              (t_dtype (batch ! i) \<noteq> Int64 \<longrightarrow>
                 t_dtype (convert_tensor (batch ! i)) = t_dtype (batch ! i) \<and>
                 ca_inputs args ! i =
                   (t_shape (batch ! i),
                    if quantization_type = Some HALF \<and> t_dtype (batch ! i) \<notin> {Int8, Int32}
                    then Float16 else t_dtype (batch ! i)))) \<and>
           (\<forall>m ts. Ev_jit_trace m ts \<in>
                 set (trace (snd (PyTorch_execute env device model model_params metric_drop_ths quantization_type input_data s)))
               \<and> Ev_jit_trace m ts \<notin> set (trace s) \<longrightarrow> ts = map convert_tensor batch)"
proof -
  obtain r s' where b: "PyTorch_execute_body env model metric_drop_ths quantization_type input_data s = (r, s')"
    by (cases "PyTorch_execute_body env model metric_drop_ths quantization_type input_data s")
  have e: "PyTorch_execute env device model model_params metric_drop_ths quantization_type input_data s = (r, s')"
    using PyTorch_execute_new_event [OF new old] b by simp
  note E = PyTorch_body_events [OF b]
  from new have "Ev_torch_tensorrt_compile args \<in> set (trace s')" unfolding e by simp
  with E old obtain d batch rest where d: "input_data = Some d" "get_list d 1 = Inr (batch # rest)"
    and inp: "ca_inputs args =
             map (input_spec (if quantization_type = Some HALF then Float16
                              else if quantization_type = Some STATIC then Int8 else Float32))
                 (map convert_tensor batch)"
    by blast
  have len: "length (ca_inputs args) = length batch" using inp by simp
  have dt: "\<forall>i < length batch.
              (t_dtype (batch ! i) = Int64 \<longrightarrow>
                 t_dtype (convert_tensor (batch ! i)) = Int32 \<and>
                 ca_inputs args ! i = (t_shape (batch ! i), Int32)) \<and>
              (t_dtype (batch ! i) \<noteq> Int64 \<longrightarrow>
                 t_dtype (convert_tensor (batch ! i)) = t_dtype (batch ! i) \<and>
                 ca_inputs args ! i =
                   (t_shape (batch ! i),
                    if quantization_type = Some HALF \<and> t_dtype (batch ! i) \<notin> {Int8, Int32}
                    then Float16 else t_dtype (batch ! i)))"
    using inp by (simp add: convert_tensor_dtype input_spec_int64 input_spec_other)
  have jit: "\<forall>m ts. Ev_jit_trace m ts \<in> set (trace s') \<and> Ev_jit_trace m ts \<notin> set (trace s)
       \<longrightarrow> ts = map convert_tensor batch"
    using E d by auto
  from d len dt jit show ?thesis unfolding e by auto
qed

theorem inputs_presented_to_backend_witness:
  "Ev_torch_tensorrt_compile plain_compile_args \<in>
      set (trace (snd (PyTorch_execute backend_ok GPU 0 static_params (Some 1) None (Some sample_data) fresh_state)))
   \<and> Ev_torch_tensorrt_compile plain_compile_args \<notin> set (trace fresh_state)
   \<and> get_list sample_data 1 = Inr ([token_ids, pixels] # [])
   \<and> t_dtype token_ids = Int64
   \<and> t_dtype (convert_tensor token_ids) = Int32
   \<and> ca_inputs plain_compile_args ! 0 = (t_shape token_ids, Int32)
   \<and> t_dtype pixels = Float32
   \<and> t_dtype (convert_tensor pixels) = Float32
   \<and> ca_inputs plain_compile_args ! 1 = (t_shape pixels, Float32)"
proof -
  have new: "Ev_torch_tensorrt_compile plain_compile_args \<in>
      set (trace (snd (PyTorch_execute backend_ok GPU 0 static_params (Some 1) None (Some sample_data) fresh_state)))"
    by (simp add: plain_run_trace)
  have old: "Ev_torch_tensorrt_compile plain_compile_args \<notin> set (trace fresh_state)"
    by (simp add: fresh_state_def)
  from new old inputs_presented_to_backend [OF new old] show ?thesis
    by (simp add: sample_data_def plain_compile_args_def convert_tensor_dtype token_ids_def pixels_def)
qed

text \<open>
  As the claim states it, it fails under half precision: the input specification built for
  the backend is \<^verbatim>\<open>torch.half\<close> for every tensor whose dtype is neither
  \<^verbatim>\<open>torch.int8\<close> nor \<^verbatim>\<open>torch.int32\<close>, so the 32-bit float tensor of the sample
  is presented to the backend as a 16-bit float input and does not keep its dtype.
\<close>

theorem half_declares_float_input_as_half:
  "Ev_torch_tensorrt_compile half_compile_args \<in>
      set (trace (snd (PyTorch_execute backend_ok GPU 0 static_params (Some 1) (Some HALF) (Some sample_data) fresh_state)))
   \<and> Ev_torch_tensorrt_compile half_compile_args \<notin> set (trace fresh_state)
   \<and> get_list sample_data 1 = Inr ([token_ids, pixels] # [])
   \<and> t_dtype pixels = Float32
   \<and> ca_inputs half_compile_args ! 1 = (t_shape pixels, Float16)"
proof -
  have "Ev_torch_tensorrt_compile half_compile_args \<in>
      set (trace (snd (PyTorch_execute backend_ok GPU 0 static_params (Some 1) (Some HALF) (Some sample_data) fresh_state)))"
    by (simp add: half_run_trace)
  moreover have "Ev_torch_tensorrt_compile half_compile_args \<notin> set (trace fresh_state)"
    by (simp add: fresh_state_def)
  moreover have "get_list sample_data 1 = Inr ([token_ids, pixels] # [])
      \<and> t_dtype pixels = Float32
      \<and> ca_inputs half_compile_args ! 1 = (t_shape pixels, Float16)"
    by (simp add: sample_data_def half_compile_args_def pixels_def)
  ultimately show ?thesis by blast
qed

section \<open>What the sample data source is used for\<close>

text \<open>
  Claim C10, as amended. On a supported pair, the native-graph strategy does not accept a
  null sample data source for any quantization type: the call raises and assigns no
  artifact. Every new call of \<^verbatim>\<open>torch_tensorrt.compile\<close> comes after the first sample was
  read from the data source, and it receives a calibrator only under static quantization.
  On the interchange-format strategy \<^verbatim>\<open>quantize_tensorrt\<close> receives sample arrays only
  under static quantization.
\<close>

theorem sample_data_use:
  assumes ops: "map_of supported_ops (device_value device) = Some ops" and sup: "quantization_type \<in> set ops"
  shows "(input_data = None \<longrightarrow>
            (\<exists>e. fst (PyTorch_execute env device model model_params metric_drop_ths quantization_type input_data s) = Inl e) \<and>
            compiled_model (snd (PyTorch_execute env device model model_params metric_drop_ths quantization_type input_data s))
              = compiled_model s)
       \<and> (\<forall>args. Ev_torch_tensorrt_compile args \<in>
               set (trace (snd (PyTorch_execute env device model model_params metric_drop_ths quantization_type input_data s)))
             \<and> Ev_torch_tensorrt_compile args \<notin> set (trace s) \<longrightarrow>
             (\<exists>d batch rest. input_data = Some d \<and> get_list d 1 = Inr (batch # rest)) \<and>
             (quantization_type \<noteq> Some STATIC \<longrightarrow> ca_calibrator args = None))
       \<and> (\<forall>q' data. Ev_quantize_tensorrt q' data \<in>
               set (trace (snd (ONNX_execute env device path model_params metric_drop_ths quantization_type input_data s)))
             \<and> Ev_quantize_tensorrt q' data \<notin> set (trace s) \<longrightarrow>
             (data \<noteq> None \<longrightarrow> quantization_type = Some STATIC))"
proof -
  obtain rp sp where p: "PyTorch_execute_body env model metric_drop_ths quantization_type input_data s = (rp, sp)"
    by (cases "PyTorch_execute_body env model metric_drop_ths quantization_type input_data s")
  obtain ro so where o: "ONNX_execute_body env path model_params metric_drop_ths quantization_type input_data s = (ro, so)"
    by (cases "ONNX_execute_body env path model_params metric_drop_ths quantization_type input_data s")
  note PR = PyTorch_body_result [OF p]
  note PE = PyTorch_body_events [OF p]
  note OE = ONNX_body_events [OF o]
  have first: "input_data = None \<longrightarrow>
            (\<exists>e. fst (PyTorch_execute env device model model_params metric_drop_ths quantization_type input_data s) = Inl e) \<and>
            compiled_model (snd (PyTorch_execute env device model model_params metric_drop_ths quantization_type input_data s))
              = compiled_model s"
    using ops sup p PR by (auto simp: PyTorch_execute_def)
  have second: "\<forall>args. Ev_torch_tensorrt_compile args \<in>
               set (trace (snd (PyTorch_execute env device model model_params metric_drop_ths quantization_type input_data s)))
             \<and> Ev_torch_tensorrt_compile args \<notin> set (trace s) \<longrightarrow>
             (\<exists>d batch rest. input_data = Some d \<and> get_list d 1 = Inr (batch # rest)) \<and>
             (quantization_type \<noteq> Some STATIC \<longrightarrow> ca_calibrator args = None)"
  proof (intro allI impI, elim conjE)
    fix args
    assume new: "Ev_torch_tensorrt_compile args \<in>
               set (trace (snd (PyTorch_execute env device model model_params metric_drop_ths quantization_type input_data s)))"
      and old: "Ev_torch_tensorrt_compile args \<notin> set (trace s)"
    from PyTorch_execute_new_event [OF new old] p new have "Ev_torch_tensorrt_compile args \<in> set (trace sp)"
      by simp
    with PE old show "(\<exists>d batch rest. input_data = Some d \<and> get_list d 1 = Inr (batch # rest)) \<and>
             (quantization_type \<noteq> Some STATIC \<longrightarrow> ca_calibrator args = None)"
      by blast
  qed
  have third: "\<forall>q' data. Ev_quantize_tensorrt q' data \<in>
               set (trace (snd (ONNX_execute env device path model_params metric_drop_ths quantization_type input_data s)))
             \<and> Ev_quantize_tensorrt q' data \<notin> set (trace s) \<longrightarrow>
             (data \<noteq> None \<longrightarrow> quantization_type = Some STATIC)"
  proof (intro allI impI, elim conjE)
    fix q' data
    assume new: "Ev_quantize_tensorrt q' data \<in>
               set (trace (snd (ONNX_execute env device path model_params metric_drop_ths quantization_type input_data s)))"
      and old: "Ev_quantize_tensorrt q' data \<notin> set (trace s)"
      and dn: "data \<noteq> None"
    from new old ops sup o have "Ev_quantize_tensorrt q' data \<in> set (trace so)"
      by (auto simp: ONNX_execute_def split: if_splits)
    with OE old dn show "quantization_type = Some STATIC" by blast
  qed
  from first second third show ?thesis by blast
qed

theorem sample_data_use_witness:
  "map_of supported_ops (device_value GPU) = Some [None, Some STATIC, Some HALF]
   \<and> None \<in> set [None, Some STATIC, Some HALF]
   \<and> fst (PyTorch_execute backend_ok GPU 0 static_params None None None fresh_state)
       = Inl (AttributeError ''get_list'')
   \<and> compiled_model (snd (PyTorch_execute backend_ok GPU 0 static_params None None None fresh_state)) = None"
proof -
  have h1: "map_of supported_ops (device_value GPU) = Some [None, Some STATIC, Some HALF]"
    by (simp add: supported_ops_gpu)
  have h2: "None \<in> set [None, Some STATIC, Some HALF]" by simp
  from h1 h2
    sample_data_use [OF h1 h2, where env = backend_ok and model = 0 and model_params = static_params
      and metric_drop_ths = None and input_data = None and s = fresh_state and path = "''model.onnx''"]
  show ?thesis by (simp add: PyTorch_defs run_defs)
qed

text \<open>
  As the claim states it (a null data source is accepted when the quantization is not
  static) it fails: under half precision on a gpu the call raises on
  \<^verbatim>\<open>input_data.get_list(1)\<close> before any call of the backend.
\<close>

theorem null_data_without_static_raises:
  "fst (PyTorch_execute backend_ok GPU 0 static_params (Some 1) (Some HALF) None fresh_state)
     = Inl (AttributeError ''get_list'')
   \<and> compiled_model (snd (PyTorch_execute backend_ok GPU 0 static_params (Some 1) (Some HALF) None fresh_state))
     = None
   \<and> trace (snd (PyTorch_execute backend_ok GPU 0 static_params (Some 1) (Some HALF) None fresh_state))
     = [Ev_check_quantization (Some HALF) (Some 1)]"
  by (simp add: PyTorch_defs run_defs)

end
